theory Spec2Isabelle
  imports Main "HOL-Library.Monad_Syntax"
begin

section \<open>Go library functions used by the parser\<close>

subsection \<open>Package utf8\<close>

text \<open>
  Go strings are byte sequences, modelled as \<open>string\<close> (a list of bytes); a rune is the
  natural number of its code point. The functions of package \<open>strings\<close> read a string as
  UTF-8: a byte that does not begin a well-formed encoding is read as the rune
  \<open>RuneError\<close> of width 1.
\<close>

definition RuneError :: nat where
  "RuneError = 0xFFFD"

definition RuneSelf :: nat where
  "RuneSelf = 0x80"

definition byteAt :: "string \<Rightarrow> nat \<Rightarrow> nat" where
  "byteAt s i = of_char (s ! i)"

definition isASCII :: "string \<Rightarrow> bool" where
  "isASCII s = list_all (\<lambda>c. (of_char c :: nat) < RuneSelf) s"

text \<open>
  The table \<open>first\<close> of package \<open>utf8\<close>: the width that a leading byte announces (0 for
  a byte that cannot lead), and the range that it accepts for the second byte.
\<close>

definition firstSize :: "nat \<Rightarrow> nat" where
  "firstSize b =
     (if b < 0x80 then 1 else if b < 0xC2 then 0 else if b < 0xE0 then 2
      else if b < 0xF0 then 3 else if b < 0xF5 then 4 else 0)"

definition acceptLo :: "nat \<Rightarrow> nat" where
  "acceptLo b = (if b = 0xE0 then 0xA0 else if b = 0xF0 then 0x90 else 0x80)"

definition acceptHi :: "nat \<Rightarrow> nat" where
  "acceptHi b = (if b = 0xED then 0x9F else if b = 0xF4 then 0x8F else 0xBF)"

text \<open>\<open>utf8.DecodeRuneInString\<close>: the first rune of a string and its width in bytes.\<close>

definition DecodeRuneInString :: "string \<Rightarrow> nat \<times> nat" where
  "DecodeRuneInString s =
     (if s = [] then (RuneError, 0)
      else (let s0 = byteAt s 0; sz = firstSize s0
            in if s0 < RuneSelf then (s0, 1)
               else if sz = 0 then (RuneError, 1)
               else if length s < sz then (RuneError, 1)
               else (let s1 = byteAt s 1
                     in if s1 < acceptLo s0 \<or> acceptHi s0 < s1 then (RuneError, 1)
                        else if sz \<le> 2 then (s0 mod 0x20 * 0x40 + s1 mod 0x40, 2)
                        else (let s2 = byteAt s 2
                              in if s2 < 0x80 \<or> 0xBF < s2 then (RuneError, 1)
                                 else if sz \<le> 3
                                 then (s0 mod 0x10 * 0x1000 + s1 mod 0x40 * 0x40
                                         + s2 mod 0x40, 3)
                                 else (let s3 = byteAt s 3
                                       in if s3 < 0x80 \<or> 0xBF < s3 then (RuneError, 1)
                                          else (s0 mod 8 * 0x40000 + s1 mod 0x40 * 0x1000
                                                  + s2 mod 0x40 * 0x40 + s3 mod 0x40, 4))))))"

text \<open>
  \<open>utf8.DecodeLastRuneInString\<close>: the last rune of a string and its width. It steps
  back over at most three bytes to a byte that can begin an encoding, and decodes from
  there; the encoding has to end where the string ends.
\<close>

definition RuneStart :: "nat \<Rightarrow> bool" where
  "RuneStart b = (b < 0x80 \<or> 0xC0 \<le> b)"

function lastRuneStart :: "string \<Rightarrow> int \<Rightarrow> int \<Rightarrow> int" where
  "lastRuneStart s lim start =
     (if start < lim then start
      else if RuneStart (byteAt s (nat start)) then start
      else lastRuneStart s lim (start - 1))"
  by pat_completeness auto

termination lastRuneStart
  by (relation "measure (\<lambda>(s, lim, start). nat (start - lim + 1))") auto

declare lastRuneStart.simps [simp del]

definition DecodeLastRuneInString :: "string \<Rightarrow> nat \<times> nat" where
  "DecodeLastRuneInString s =
     (let end' = int (length s)
      in if end' = 0 then (RuneError, 0)
         else if byteAt s (nat (end' - 1)) < RuneSelf then (byteAt s (nat (end' - 1)), 1)
         else (let lim = max 0 (end' - 4);
                   start = max 0 (lastRuneStart s lim (end' - 2));
                   (r, w) = DecodeRuneInString (drop (nat start) s)
               in if start + int w \<noteq> end' then (RuneError, 1) else (r, w)))"

text \<open>\<open>utf8.AppendRune\<close>: the encoding of a rune.\<close>

definition EncodeRune :: "nat \<Rightarrow> string" where
  "EncodeRune r0 =
     (if r0 \<le> 0x7F then [char_of r0]
      else if r0 \<le> 0x7FF then [char_of (0xC0 + r0 div 0x40), char_of (0x80 + r0 mod 0x40)]
      else (let r = (if 0x10FFFF < r0 \<or> (0xD800 \<le> r0 \<and> r0 \<le> 0xDFFF) then RuneError
                     else r0)
            in if r \<le> 0xFFFF
               then [char_of (0xE0 + r div 0x1000), char_of (0x80 + r div 0x40 mod 0x40),
                     char_of (0x80 + r mod 0x40)]
               else [char_of (0xF0 + r div 0x40000), char_of (0x80 + r div 0x1000 mod 0x40),
                     char_of (0x80 + r div 0x40 mod 0x40), char_of (0x80 + r mod 0x40)]))"

text \<open>
  The loop \<open>for _, r := range s\<close>: the runes of a string in order, each with the bytes
  it was decoded from.
\<close>

function runes :: "string \<Rightarrow> (nat \<times> string) list" where
  "runes [] = []"
| "runes (c # cs) =
     (case DecodeRuneInString (c # cs) of
        (r, w) \<Rightarrow> (r, take w (c # cs)) # runes (drop w (c # cs)))"
  by pat_completeness auto

termination runes
  by (relation "measure length")
    (auto simp: DecodeRuneInString_def Let_def split: if_splits)

declare runes.simps [simp del]

subsection \<open>Package unicode\<close>

text \<open>\<open>unicode.IsSpace\<close>: the Latin-1 spaces and the table \<open>White_Space\<close>.\<close>

definition unicode_IsSpace :: "nat \<Rightarrow> bool" where
  "unicode_IsSpace r =
     (if r \<le> 0xFF
      then r = 0x09 \<or> r = 0x0A \<or> r = 0x0B \<or> r = 0x0C \<or> r = 0x0D \<or> r = 0x20
           \<or> r = 0x85 \<or> r = 0xA0
      else r = 0x1680 \<or> (0x2000 \<le> r \<and> r \<le> 0x200A) \<or> r = 0x2028 \<or> r = 0x2029
           \<or> r = 0x202F \<or> r = 0x205F \<or> r = 0x3000)"

text \<open>
  The case tables of package \<open>unicode\<close> are generated from the simple case mappings of
  the Unicode Character Database; the mappings of version 15.0.0 (the tables of Go 1.21
  and later) are listed here for the runes above ASCII. An entry \<open>(lo, hi, stride,
  delta)\<close> maps every rune \<open>lo, lo + stride, \<dots>\<close> up to \<open>hi\<close> to the rune \<open>delta\<close>
  above it; a rune in no entry has no other case.
\<close>

definition upperCaseRanges :: "(nat \<times> nat \<times> nat \<times> int) list" where
  "upperCaseRanges =
    [(0x00B5, 0x00B5, 1, 743), (0x00E0, 0x00F6, 1, - 32), (0x00F8, 0x00FE, 1, - 32),
     (0x00FF, 0x00FF, 1, 121), (0x0101, 0x012F, 2, - 1), (0x0131, 0x0131, 1, - 232),
     (0x0133, 0x0137, 2, - 1), (0x013A, 0x0148, 2, - 1), (0x014B, 0x0177, 2, - 1),
     (0x017A, 0x017E, 2, - 1), (0x017F, 0x017F, 1, - 300), (0x0180, 0x0180, 1, 195),
     (0x0183, 0x0185, 2, - 1), (0x0188, 0x0188, 1, - 1), (0x018C, 0x018C, 1, - 1),
     (0x0192, 0x0192, 1, - 1), (0x0195, 0x0195, 1, 97), (0x0199, 0x0199, 1, - 1),
     (0x019A, 0x019A, 1, 163), (0x019E, 0x019E, 1, 130), (0x01A1, 0x01A5, 2, - 1),
     (0x01A8, 0x01A8, 1, - 1), (0x01AD, 0x01AD, 1, - 1), (0x01B0, 0x01B0, 1, - 1),
     (0x01B4, 0x01B6, 2, - 1), (0x01B9, 0x01B9, 1, - 1), (0x01BD, 0x01BD, 1, - 1),
     (0x01BF, 0x01BF, 1, 56), (0x01C5, 0x01C5, 1, - 1), (0x01C6, 0x01C6, 1, - 2),
     (0x01C8, 0x01C8, 1, - 1), (0x01C9, 0x01C9, 1, - 2), (0x01CB, 0x01CB, 1, - 1),
     (0x01CC, 0x01CC, 1, - 2), (0x01CE, 0x01DC, 2, - 1), (0x01DD, 0x01DD, 1, - 79),
     (0x01DF, 0x01EF, 2, - 1), (0x01F2, 0x01F2, 1, - 1), (0x01F3, 0x01F3, 1, - 2),
     (0x01F5, 0x01F5, 1, - 1), (0x01F9, 0x021F, 2, - 1), (0x0223, 0x0233, 2, - 1),
     (0x023C, 0x023C, 1, - 1), (0x023F, 0x0240, 1, 10815), (0x0242, 0x0242, 1, - 1),
     (0x0247, 0x024F, 2, - 1), (0x0250, 0x0250, 1, 10783), (0x0251, 0x0251, 1, 10780),
     (0x0252, 0x0252, 1, 10782), (0x0253, 0x0253, 1, - 210), (0x0254, 0x0254, 1, - 206),
     (0x0256, 0x0257, 1, - 205), (0x0259, 0x0259, 1, - 202), (0x025B, 0x025B, 1, - 203),
     (0x025C, 0x025C, 1, 42319), (0x0260, 0x0260, 1, - 205), (0x0261, 0x0261, 1, 42315),
     (0x0263, 0x0263, 1, - 207), (0x0265, 0x0265, 1, 42280), (0x0266, 0x0266, 1, 42308),
     (0x0268, 0x0268, 1, - 209), (0x0269, 0x0269, 1, - 211), (0x026A, 0x026A, 1, 42308),
     (0x026B, 0x026B, 1, 10743), (0x026C, 0x026C, 1, 42305), (0x026F, 0x026F, 1, - 211),
     (0x0271, 0x0271, 1, 10749), (0x0272, 0x0272, 1, - 213), (0x0275, 0x0275, 1, - 214),
     (0x027D, 0x027D, 1, 10727), (0x0280, 0x0280, 1, - 218), (0x0282, 0x0282, 1, 42307),
     (0x0283, 0x0283, 1, - 218), (0x0287, 0x0287, 1, 42282), (0x0288, 0x0288, 1, - 218),
     (0x0289, 0x0289, 1, - 69), (0x028A, 0x028B, 1, - 217), (0x028C, 0x028C, 1, - 71),
     (0x0292, 0x0292, 1, - 219), (0x029D, 0x029D, 1, 42261), (0x029E, 0x029E, 1, 42258),
     (0x0345, 0x0345, 1, 84), (0x0371, 0x0373, 2, - 1), (0x0377, 0x0377, 1, - 1),
     (0x037B, 0x037D, 1, 130), (0x03AC, 0x03AC, 1, - 38), (0x03AD, 0x03AF, 1, - 37),
     (0x03B1, 0x03C1, 1, - 32), (0x03C2, 0x03C2, 1, - 31), (0x03C3, 0x03CB, 1, - 32),
     (0x03CC, 0x03CC, 1, - 64), (0x03CD, 0x03CE, 1, - 63), (0x03D0, 0x03D0, 1, - 62),
     (0x03D1, 0x03D1, 1, - 57), (0x03D5, 0x03D5, 1, - 47), (0x03D6, 0x03D6, 1, - 54),
     (0x03D7, 0x03D7, 1, - 8), (0x03D9, 0x03EF, 2, - 1), (0x03F0, 0x03F0, 1, - 86),
     (0x03F1, 0x03F1, 1, - 80), (0x03F2, 0x03F2, 1, 7), (0x03F3, 0x03F3, 1, - 116),
     (0x03F5, 0x03F5, 1, - 96), (0x03F8, 0x03F8, 1, - 1), (0x03FB, 0x03FB, 1, - 1),
     (0x0430, 0x044F, 1, - 32), (0x0450, 0x045F, 1, - 80), (0x0461, 0x0481, 2, - 1),
     (0x048B, 0x04BF, 2, - 1), (0x04C2, 0x04CE, 2, - 1), (0x04CF, 0x04CF, 1, - 15),
     (0x04D1, 0x052F, 2, - 1), (0x0561, 0x0586, 1, - 48), (0x10D0, 0x10FA, 1, 3008),
     (0x10FD, 0x10FF, 1, 3008), (0x13F8, 0x13FD, 1, - 8), (0x1C80, 0x1C80, 1, - 6254),
     (0x1C81, 0x1C81, 1, - 6253), (0x1C82, 0x1C82, 1, - 6244), (0x1C83, 0x1C84, 1, - 6242),
     (0x1C85, 0x1C85, 1, - 6243), (0x1C86, 0x1C86, 1, - 6236), (0x1C87, 0x1C87, 1, - 6181),
     (0x1C88, 0x1C88, 1, 35266), (0x1D79, 0x1D79, 1, 35332), (0x1D7D, 0x1D7D, 1, 3814),
     (0x1D8E, 0x1D8E, 1, 35384), (0x1E01, 0x1E95, 2, - 1), (0x1E9B, 0x1E9B, 1, - 59),
     (0x1EA1, 0x1EFF, 2, - 1), (0x1F00, 0x1F07, 1, 8), (0x1F10, 0x1F15, 1, 8),
     (0x1F20, 0x1F27, 1, 8), (0x1F30, 0x1F37, 1, 8), (0x1F40, 0x1F45, 1, 8),
     (0x1F51, 0x1F57, 2, 8), (0x1F60, 0x1F67, 1, 8), (0x1F70, 0x1F71, 1, 74),
     (0x1F72, 0x1F75, 1, 86), (0x1F76, 0x1F77, 1, 100), (0x1F78, 0x1F79, 1, 128),
     (0x1F7A, 0x1F7B, 1, 112), (0x1F7C, 0x1F7D, 1, 126), (0x1F80, 0x1F87, 1, 8),
     (0x1F90, 0x1F97, 1, 8), (0x1FA0, 0x1FA7, 1, 8), (0x1FB0, 0x1FB1, 1, 8),
     (0x1FB3, 0x1FB3, 1, 9), (0x1FBE, 0x1FBE, 1, - 7205), (0x1FC3, 0x1FC3, 1, 9),
     (0x1FD0, 0x1FD1, 1, 8), (0x1FE0, 0x1FE1, 1, 8), (0x1FE5, 0x1FE5, 1, 7),
     (0x1FF3, 0x1FF3, 1, 9), (0x214E, 0x214E, 1, - 28), (0x2170, 0x217F, 1, - 16),
     (0x2184, 0x2184, 1, - 1), (0x24D0, 0x24E9, 1, - 26), (0x2C30, 0x2C5F, 1, - 48),
     (0x2C61, 0x2C61, 1, - 1), (0x2C65, 0x2C65, 1, - 10795), (0x2C66, 0x2C66, 1, - 10792),
     (0x2C68, 0x2C6C, 2, - 1), (0x2C73, 0x2C73, 1, - 1), (0x2C76, 0x2C76, 1, - 1),
     (0x2C81, 0x2CE3, 2, - 1), (0x2CEC, 0x2CEE, 2, - 1), (0x2CF3, 0x2CF3, 1, - 1),
     (0x2D00, 0x2D25, 1, - 7264), (0x2D27, 0x2D27, 1, - 7264), (0x2D2D, 0x2D2D, 1, - 7264),
     (0xA641, 0xA66D, 2, - 1), (0xA681, 0xA69B, 2, - 1), (0xA723, 0xA72F, 2, - 1),
     (0xA733, 0xA76F, 2, - 1), (0xA77A, 0xA77C, 2, - 1), (0xA77F, 0xA787, 2, - 1),
     (0xA78C, 0xA78C, 1, - 1), (0xA791, 0xA793, 2, - 1), (0xA794, 0xA794, 1, 48),
     (0xA797, 0xA7A9, 2, - 1), (0xA7B5, 0xA7C3, 2, - 1), (0xA7C8, 0xA7CA, 2, - 1),
     (0xA7D1, 0xA7D1, 1, - 1), (0xA7D7, 0xA7D9, 2, - 1), (0xA7F6, 0xA7F6, 1, - 1),
     (0xAB53, 0xAB53, 1, - 928), (0xAB70, 0xABBF, 1, - 38864), (0xFF41, 0xFF5A, 1, - 32),
     (0x10428, 0x1044F, 1, - 40), (0x104D8, 0x104FB, 1, - 40), (0x10597, 0x105A1, 1, - 39),
     (0x105A3, 0x105B1, 1, - 39), (0x105B3, 0x105B9, 1, - 39), (0x105BB, 0x105BC, 1, - 39),
     (0x10CC0, 0x10CF2, 1, - 64), (0x118C0, 0x118DF, 1, - 32), (0x16E60, 0x16E7F, 1, - 32),
     (0x1E922, 0x1E943, 1, - 34)]"

definition lowerCaseRanges :: "(nat \<times> nat \<times> nat \<times> int) list" where
  "lowerCaseRanges =
    [(0x00C0, 0x00D6, 1, 32), (0x00D8, 0x00DE, 1, 32), (0x0100, 0x012E, 2, 1),
     (0x0130, 0x0130, 1, - 199), (0x0132, 0x0136, 2, 1), (0x0139, 0x0147, 2, 1),
     (0x014A, 0x0176, 2, 1), (0x0178, 0x0178, 1, - 121), (0x0179, 0x017D, 2, 1),
     (0x0181, 0x0181, 1, 210), (0x0182, 0x0184, 2, 1), (0x0186, 0x0186, 1, 206),
     (0x0187, 0x0187, 1, 1), (0x0189, 0x018A, 1, 205), (0x018B, 0x018B, 1, 1),
     (0x018E, 0x018E, 1, 79), (0x018F, 0x018F, 1, 202), (0x0190, 0x0190, 1, 203),
     (0x0191, 0x0191, 1, 1), (0x0193, 0x0193, 1, 205), (0x0194, 0x0194, 1, 207),
     (0x0196, 0x0196, 1, 211), (0x0197, 0x0197, 1, 209), (0x0198, 0x0198, 1, 1),
     (0x019C, 0x019C, 1, 211), (0x019D, 0x019D, 1, 213), (0x019F, 0x019F, 1, 214),
     (0x01A0, 0x01A4, 2, 1), (0x01A6, 0x01A6, 1, 218), (0x01A7, 0x01A7, 1, 1),
     (0x01A9, 0x01A9, 1, 218), (0x01AC, 0x01AC, 1, 1), (0x01AE, 0x01AE, 1, 218),
     (0x01AF, 0x01AF, 1, 1), (0x01B1, 0x01B2, 1, 217), (0x01B3, 0x01B5, 2, 1),
     (0x01B7, 0x01B7, 1, 219), (0x01B8, 0x01B8, 1, 1), (0x01BC, 0x01BC, 1, 1),
     (0x01C4, 0x01C4, 1, 2), (0x01C5, 0x01C5, 1, 1), (0x01C7, 0x01C7, 1, 2),
     (0x01C8, 0x01C8, 1, 1), (0x01CA, 0x01CA, 1, 2), (0x01CB, 0x01DB, 2, 1),
     (0x01DE, 0x01EE, 2, 1), (0x01F1, 0x01F1, 1, 2), (0x01F2, 0x01F4, 2, 1),
     (0x01F6, 0x01F6, 1, - 97), (0x01F7, 0x01F7, 1, - 56), (0x01F8, 0x021E, 2, 1),
     (0x0220, 0x0220, 1, - 130), (0x0222, 0x0232, 2, 1), (0x023A, 0x023A, 1, 10795),
     (0x023B, 0x023B, 1, 1), (0x023D, 0x023D, 1, - 163), (0x023E, 0x023E, 1, 10792),
     (0x0241, 0x0241, 1, 1), (0x0243, 0x0243, 1, - 195), (0x0244, 0x0244, 1, 69),
     (0x0245, 0x0245, 1, 71), (0x0246, 0x024E, 2, 1), (0x0370, 0x0372, 2, 1),
     (0x0376, 0x0376, 1, 1), (0x037F, 0x037F, 1, 116), (0x0386, 0x0386, 1, 38),
     (0x0388, 0x038A, 1, 37), (0x038C, 0x038C, 1, 64), (0x038E, 0x038F, 1, 63),
     (0x0391, 0x03A1, 1, 32), (0x03A3, 0x03AB, 1, 32), (0x03CF, 0x03CF, 1, 8),
     (0x03D8, 0x03EE, 2, 1), (0x03F4, 0x03F4, 1, - 60), (0x03F7, 0x03F7, 1, 1),
     (0x03F9, 0x03F9, 1, - 7), (0x03FA, 0x03FA, 1, 1), (0x03FD, 0x03FF, 1, - 130),
     (0x0400, 0x040F, 1, 80), (0x0410, 0x042F, 1, 32), (0x0460, 0x0480, 2, 1),
     (0x048A, 0x04BE, 2, 1), (0x04C0, 0x04C0, 1, 15), (0x04C1, 0x04CD, 2, 1),
     (0x04D0, 0x052E, 2, 1), (0x0531, 0x0556, 1, 48), (0x10A0, 0x10C5, 1, 7264),
     (0x10C7, 0x10C7, 1, 7264), (0x10CD, 0x10CD, 1, 7264), (0x13A0, 0x13EF, 1, 38864),
     (0x13F0, 0x13F5, 1, 8), (0x1C90, 0x1CBA, 1, - 3008), (0x1CBD, 0x1CBF, 1, - 3008),
     (0x1E00, 0x1E94, 2, 1), (0x1E9E, 0x1E9E, 1, - 7615), (0x1EA0, 0x1EFE, 2, 1),
     (0x1F08, 0x1F0F, 1, - 8), (0x1F18, 0x1F1D, 1, - 8), (0x1F28, 0x1F2F, 1, - 8),
     (0x1F38, 0x1F3F, 1, - 8), (0x1F48, 0x1F4D, 1, - 8), (0x1F59, 0x1F5F, 2, - 8),
     (0x1F68, 0x1F6F, 1, - 8), (0x1F88, 0x1F8F, 1, - 8), (0x1F98, 0x1F9F, 1, - 8),
     (0x1FA8, 0x1FAF, 1, - 8), (0x1FB8, 0x1FB9, 1, - 8), (0x1FBA, 0x1FBB, 1, - 74),
     (0x1FBC, 0x1FBC, 1, - 9), (0x1FC8, 0x1FCB, 1, - 86), (0x1FCC, 0x1FCC, 1, - 9),
     (0x1FD8, 0x1FD9, 1, - 8), (0x1FDA, 0x1FDB, 1, - 100), (0x1FE8, 0x1FE9, 1, - 8),
     (0x1FEA, 0x1FEB, 1, - 112), (0x1FEC, 0x1FEC, 1, - 7), (0x1FF8, 0x1FF9, 1, - 128),
     (0x1FFA, 0x1FFB, 1, - 126), (0x1FFC, 0x1FFC, 1, - 9), (0x2126, 0x2126, 1, - 7517),
     (0x212A, 0x212A, 1, - 8383), (0x212B, 0x212B, 1, - 8262), (0x2132, 0x2132, 1, 28),
     (0x2160, 0x216F, 1, 16), (0x2183, 0x2183, 1, 1), (0x24B6, 0x24CF, 1, 26),
     (0x2C00, 0x2C2F, 1, 48), (0x2C60, 0x2C60, 1, 1), (0x2C62, 0x2C62, 1, - 10743),
     (0x2C63, 0x2C63, 1, - 3814), (0x2C64, 0x2C64, 1, - 10727), (0x2C67, 0x2C6B, 2, 1),
     (0x2C6D, 0x2C6D, 1, - 10780), (0x2C6E, 0x2C6E, 1, - 10749), (0x2C6F, 0x2C6F, 1, - 10783),
     (0x2C70, 0x2C70, 1, - 10782), (0x2C72, 0x2C72, 1, 1), (0x2C75, 0x2C75, 1, 1),
     (0x2C7E, 0x2C7F, 1, - 10815), (0x2C80, 0x2CE2, 2, 1), (0x2CEB, 0x2CED, 2, 1),
     (0x2CF2, 0x2CF2, 1, 1), (0xA640, 0xA66C, 2, 1), (0xA680, 0xA69A, 2, 1),
     (0xA722, 0xA72E, 2, 1), (0xA732, 0xA76E, 2, 1), (0xA779, 0xA77B, 2, 1),
     (0xA77D, 0xA77D, 1, - 35332), (0xA77E, 0xA786, 2, 1), (0xA78B, 0xA78B, 1, 1),
     (0xA78D, 0xA78D, 1, - 42280), (0xA790, 0xA792, 2, 1), (0xA796, 0xA7A8, 2, 1),
     (0xA7AA, 0xA7AA, 1, - 42308), (0xA7AB, 0xA7AB, 1, - 42319), (0xA7AC, 0xA7AC, 1, - 42315),
     (0xA7AD, 0xA7AD, 1, - 42305), (0xA7AE, 0xA7AE, 1, - 42308), (0xA7B0, 0xA7B0, 1, - 42258),
     (0xA7B1, 0xA7B1, 1, - 42282), (0xA7B2, 0xA7B2, 1, - 42261), (0xA7B3, 0xA7B3, 1, 928),
     (0xA7B4, 0xA7C2, 2, 1), (0xA7C4, 0xA7C4, 1, - 48), (0xA7C5, 0xA7C5, 1, - 42307),
     (0xA7C6, 0xA7C6, 1, - 35384), (0xA7C7, 0xA7C9, 2, 1), (0xA7D0, 0xA7D0, 1, 1),
     (0xA7D6, 0xA7D8, 2, 1), (0xA7F5, 0xA7F5, 1, 1), (0xFF21, 0xFF3A, 1, 32),
     (0x10400, 0x10427, 1, 40), (0x104B0, 0x104D3, 1, 40), (0x10570, 0x1057A, 1, 39),
     (0x1057C, 0x1058A, 1, 39), (0x1058C, 0x10592, 1, 39), (0x10594, 0x10595, 1, 39),
     (0x10C80, 0x10CB2, 1, 64), (0x118A0, 0x118BF, 1, 32), (0x16E40, 0x16E5F, 1, 32),
     (0x1E900, 0x1E921, 1, 34)]"

definition caseTo :: "(nat \<times> nat \<times> nat \<times> int) list \<Rightarrow> nat \<Rightarrow> nat" where
  "caseTo tab r =
     (case find (\<lambda>(lo, hi, stride, delta). lo \<le> r \<and> r \<le> hi \<and> (r - lo) mod stride = 0) tab of
        None \<Rightarrow> r
      | Some (lo, hi, stride, delta) \<Rightarrow> nat (int r + delta))"

definition unicode_ToUpper :: "nat \<Rightarrow> nat" where
  "unicode_ToUpper r =
     (if r \<le> 0x7F then (if 0x61 \<le> r \<and> r \<le> 0x7A then r - 0x20 else r)
      else caseTo upperCaseRanges r)"

definition unicode_ToLower :: "nat \<Rightarrow> nat" where
  "unicode_ToLower r =
     (if r \<le> 0x7F then (if 0x41 \<le> r \<and> r \<le> 0x5A then r + 0x20 else r)
      else caseTo lowerCaseRanges r)"

subsection \<open>Package strings\<close>

text \<open>The ASCII white space of package \<open>strings\<close> (its table \<open>asciiSpace\<close>).\<close>

definition asciiSpace :: "char \<Rightarrow> bool" where
  "asciiSpace c = (c = CHR 0x09 \<or> c = CHR 0x0A \<or> c = CHR 0x0B \<or> c = CHR 0x0C
                   \<or> c = CHR 0x0D \<or> c = CHR 0x20)"

text \<open>
  \<open>strings.TrimLeftFunc\<close>, \<open>strings.TrimRightFunc\<close> and \<open>strings.TrimFunc\<close>. The first
  cuts the string at the first rune that \<open>f\<close> rejects. The second looks for the last such
  rune with \<open>lastIndexFunc\<close>, which decodes backwards, and cuts behind it.
\<close>

definition TrimLeftFunc :: "string \<Rightarrow> (nat \<Rightarrow> bool) \<Rightarrow> string" where
  "TrimLeftFunc s f = concat (map snd (dropWhile (\<lambda>(r, bs). f r) (runes s)))"

function lastIndexFunc :: "string \<Rightarrow> (nat \<Rightarrow> bool) \<Rightarrow> bool \<Rightarrow> int" where
  "lastIndexFunc s f truth =
     (if s = [] then - 1
      else (case DecodeLastRuneInString s of
              (r, w) \<Rightarrow>
                if f r = truth then int (length s - w)
                else lastIndexFunc (take (length s - w) s) f truth))"
  by pat_completeness auto

termination lastIndexFunc
proof (relation "measure (\<lambda>(s, f, truth). length s)", simp, goal_cases)
  case (1 s f truth r w)
  have le: "lastRuneStart s lim start \<le> start" for s lim start
    by (induction s lim start rule: lastRuneStart.induct)
      (subst lastRuneStart.simps, auto)
  define st where
    "st = max 0 (lastRuneStart s (max 0 (int (length s) - 4)) (int (length s) - 2))"
  have "st < int (length s)"
    using 1(1) le [of s "max 0 (int (length s) - 4)" "int (length s) - 2"]
    unfolding st_def by (simp add: max_def)
  then have "0 < snd (DecodeLastRuneInString s)"
    using 1(1) unfolding DecodeLastRuneInString_def Let_def st_def [symmetric]
    by (auto split: if_splits prod.splits)
  then have "0 < w" using 1(2) by (metis snd_conv)
  then show ?case using 1(1) by simp
qed

declare lastIndexFunc.simps [simp del]

definition TrimRightFunc :: "string \<Rightarrow> (nat \<Rightarrow> bool) \<Rightarrow> string" where
  "TrimRightFunc s f =
     (let i = lastIndexFunc s f False
      in if 0 \<le> i \<and> RuneSelf \<le> byteAt s (nat i)
         then take (nat i + snd (DecodeRuneInString (drop (nat i) s))) s
         else take (nat (i + 1)) s)"

definition TrimFunc :: "string \<Rightarrow> (nat \<Rightarrow> bool) \<Rightarrow> string" where
  "TrimFunc s f = TrimRightFunc (TrimLeftFunc s f) f"

text \<open>
  \<open>strings.TrimSpace\<close>. Its two loops strip ASCII white space from the front and from
  the back; each hands the rest over to the functions above at the first byte that is
  not ASCII.
\<close>

fun trimSpaceStop :: "string \<Rightarrow> string" where
  "trimSpaceStop s =
     (if s = [] then []
      else if RuneSelf \<le> of_char (last s) then TrimRightFunc s unicode_IsSpace
      else if asciiSpace (last s) then trimSpaceStop (butlast s)
      else s)"

declare trimSpaceStop.simps [simp del]

fun TrimSpace :: "string \<Rightarrow> string" where
  "TrimSpace [] = []"
| "TrimSpace (c # cs) =
     (if RuneSelf \<le> of_char c then TrimFunc (c # cs) unicode_IsSpace
      else if asciiSpace c then TrimSpace cs
      else trimSpaceStop (c # cs))"

text \<open>
  \<open>strings.Map\<close>: every rune is replaced by the encoding of its image (no mapping used
  here drops a rune).
\<close>

definition strings_Map :: "(nat \<Rightarrow> nat) \<Rightarrow> string \<Rightarrow> string" where
  "strings_Map mapping s = concat (map (\<lambda>(r, bs). EncodeRune (mapping r)) (runes s))"

text \<open>
  \<open>strings.ToUpper\<close> and \<open>strings.ToLower\<close>: a string of ASCII bytes is mapped byte by
  byte, any other string rune by rune.
\<close>

definition lowerLetters :: string where
  "lowerLetters = ''abcdefghijklmnopqrstuvwxyz''"

definition upperLetters :: string where
  "upperLetters = ''ABCDEFGHIJKLMNOPQRSTUVWXYZ''"

definition upperChar :: "char \<Rightarrow> char" where
  "upperChar c = (case map_of (zip lowerLetters upperLetters) c of
                    Some u \<Rightarrow> u | None \<Rightarrow> c)"

definition lowerChar :: "char \<Rightarrow> char" where
  "lowerChar c = (case map_of (zip upperLetters lowerLetters) c of
                    Some l \<Rightarrow> l | None \<Rightarrow> c)"

definition ToUpper :: "string \<Rightarrow> string" where
  "ToUpper s = (if isASCII s then map upperChar s else strings_Map unicode_ToUpper s)"

definition ToLower :: "string \<Rightarrow> string" where
  "ToLower s = (if isASCII s then map lowerChar s else strings_Map unicode_ToLower s)"

definition HasPrefix :: "string \<Rightarrow> string \<Rightarrow> bool" where
  "HasPrefix s p = (take (length p) s = p)"

definition HasSuffix :: "string \<Rightarrow> string \<Rightarrow> bool" where
  "HasSuffix s p = (length p \<le> length s \<and> drop (length s - length p) s = p)"

text \<open>\<open>strings.Contains(s, sep)\<close> for a one-byte separator.\<close>

definition ContainsChar :: "string \<Rightarrow> char \<Rightarrow> bool" where
  "ContainsChar s c = (c \<in> set s)"

text \<open>\<open>strings.Split(s, sep)\<close> for a one-byte separator: one more piece than separators.\<close>

fun Split :: "string \<Rightarrow> char \<Rightarrow> string list" where
  "Split [] sep = [[]]"
| "Split (c # cs) sep =
     (if c = sep then [] # Split cs sep
      else (case Split cs sep of
              [] \<Rightarrow> [[c]]
            | x # xs \<Rightarrow> (c # x) # xs))"

text \<open>\<open>strings.SplitN(s, sep, 2)\<close>: cut at the first separator, if there is one.\<close>

definition SplitN2 :: "string \<Rightarrow> char \<Rightarrow> string list" where
  "SplitN2 s sep =
     (if sep \<in> set s
      then [takeWhile (\<lambda>c. c \<noteq> sep) s, tl (dropWhile (\<lambda>c. c \<noteq> sep) s)]
      else [s])"

text \<open>
  \<open>strings.Fields\<close>: the maximal runs of bytes that hold no white space, in order. A
  string of ASCII bytes is cut at ASCII white space; any other string is handed to
  \<open>strings.FieldsFunc\<close>, which cuts it at the runes that \<open>unicode.IsSpace\<close> accepts.
\<close>

fun fieldsFrom :: "string \<Rightarrow> string \<Rightarrow> string list" where
  "fieldsFrom cur [] = (if cur = [] then [] else [rev cur])"
| "fieldsFrom cur (c # cs) =
     (if asciiSpace c
      then (if cur = [] then fieldsFrom [] cs else rev cur # fieldsFrom [] cs)
      else fieldsFrom (c # cur) cs)"

fun fieldsRunes :: "(nat \<Rightarrow> bool) \<Rightarrow> string \<Rightarrow> (nat \<times> string) list \<Rightarrow> string list" where
  "fieldsRunes f cur [] = (if cur = [] then [] else [cur])"
| "fieldsRunes f cur ((r, bs) # rs) =
     (if f r
      then (if cur = [] then fieldsRunes f [] rs else cur # fieldsRunes f [] rs)
      else fieldsRunes f (cur @ bs) rs)"

definition FieldsFunc :: "string \<Rightarrow> (nat \<Rightarrow> bool) \<Rightarrow> string list" where
  "FieldsFunc s f = fieldsRunes f [] (runes s)"

definition Fields :: "string \<Rightarrow> string list" where
  "Fields s = (if isASCII s then fieldsFrom [] s else FieldsFunc s unicode_IsSpace)"

subsection \<open>Package strconv\<close>

text \<open>
  \<open>strconv.Atoi\<close>: an optional sign, then one or more decimal digits; the value has to
  fit Go's 64-bit \<open>int\<close>. Every failure is \<open>None\<close> (the callers only test \<open>err != nil\<close>).
\<close>

definition digitVal :: "char \<Rightarrow> int option" where
  "digitVal c = map_of (zip ''0123456789'' [0, 1, 2, 3, 4, 5, 6, 7, 8, 9]) c"

fun digitsVal :: "int \<Rightarrow> string \<Rightarrow> int option" where
  "digitsVal acc [] = Some acc"
| "digitsVal acc (c # cs) =
     (case digitVal c of
        None \<Rightarrow> None
      | Some d \<Rightarrow> digitsVal (acc * 10 + d) cs)"

definition minInt :: int where
  "minInt = - (2 ^ 63)"

definition maxInt :: int where
  "maxInt = 2 ^ 63 - 1"

definition Atoi :: "string \<Rightarrow> int option" where
  "Atoi s =
     (case s of
        [] \<Rightarrow> None
      | c # r \<Rightarrow>
          (let neg = (c = CHR ''-'');
               ds = (if c = CHR ''-'' \<or> c = CHR ''+'' then r else s)
           in if ds = [] then None
              else (case digitsVal 0 ds of
                      None \<Rightarrow> None
                    | Some n \<Rightarrow>
                        (let v = (if neg then - n else n)
                         in if minInt \<le> v \<and> v \<le> maxInt then Some v else None))))"

text \<open>Go's \<open>int\<close> addition wraps around in two's complement.\<close>

definition wrap64 :: "int \<Rightarrow> int" where
  "wrap64 x = (x + 2 ^ 63) mod 2 ^ 64 - 2 ^ 63"

section \<open>Errors and field types (errors.go)\<close>

datatype FieldType =
  FieldSecond | FieldMinute | FieldHour | FieldDayOfMonth | FieldMonth | FieldDayOfWeek

text \<open>\<open>fieldBounds\<close>: the allowed range of each field type.\<close>

fun boundMin :: "FieldType \<Rightarrow> int" where
  "boundMin FieldSecond = 0"
| "boundMin FieldMinute = 0"
| "boundMin FieldHour = 0"
| "boundMin FieldDayOfMonth = 1"
| "boundMin FieldMonth = 1"
| "boundMin FieldDayOfWeek = 0"

fun boundMax :: "FieldType \<Rightarrow> int" where
  "boundMax FieldSecond = 59"
| "boundMax FieldMinute = 59"
| "boundMax FieldHour = 23"
| "boundMax FieldDayOfMonth = 31"
| "boundMax FieldMonth = 12"
| "boundMax FieldDayOfWeek = 6"

text \<open>
  The sentinel errors and the structured error types. \<open>ParseError\<close> carries expression,
  field, value and reason; \<open>FieldError\<close> carries field, value, min, max and reason.
\<close>

datatype error =
    ErrEmptyExpression
  | ErrInvalidFieldCount
  | ErrInvalidTimezone
  | ErrNoNextRun
  | ErrNoPreviousRun
  | ParseError string string string string
  | FieldError FieldType string int int string
  | RangeError FieldType int int
  | StepError FieldType int

definition NewFieldError :: "FieldType \<Rightarrow> string \<Rightarrow> string \<Rightarrow> error" where
  "NewFieldError ft v reason = FieldError ft v (boundMin ft) (boundMax ft) reason"

definition NewParseError :: "string \<Rightarrow> string \<Rightarrow> string \<Rightarrow> string \<Rightarrow> error" where
  "NewParseError expression field v reason = ParseError expression field v reason"

section \<open>Fields and the field parser (fields.go)\<close>

text \<open>
  \<open>Field.Values\<close> is a \<open>map[int]bool\<close> in which only \<open>true\<close> is ever stored: it is
  the set of its keys.
\<close>

record Field =
  Type :: FieldType
  Values :: "int set"
  Raw :: string

definition Contains :: "Field \<Rightarrow> int \<Rightarrow> bool" where
  "Contains f v = (v \<in> Values f)"

definition IsAll :: "Field \<Rightarrow> bool" where
  "IsAll f = (int (card (Values f)) = boundMax (Type f) - boundMin (Type f) + 1)"

definition monthNames :: "string \<rightharpoonup> int" where
  "monthNames = map_of
     [(''JAN'', 1), (''JANUARY'', 1), (''FEB'', 2), (''FEBRUARY'', 2),
      (''MAR'', 3), (''MARCH'', 3), (''APR'', 4), (''APRIL'', 4),
      (''MAY'', 5), (''JUN'', 6), (''JUNE'', 6), (''JUL'', 7), (''JULY'', 7),
      (''AUG'', 8), (''AUGUST'', 8), (''SEP'', 9), (''SEPTEMBER'', 9),
      (''OCT'', 10), (''OCTOBER'', 10), (''NOV'', 11), (''NOVEMBER'', 11),
      (''DEC'', 12), (''DECEMBER'', 12)]"

definition dayNames :: "string \<rightharpoonup> int" where
  "dayNames = map_of
     [(''SUN'', 0), (''SUNDAY'', 0), (''MON'', 1), (''MONDAY'', 1),
      (''TUE'', 2), (''TUESDAY'', 2), (''WED'', 3), (''WEDNESDAY'', 3),
      (''THU'', 4), (''THURSDAY'', 4), (''FRI'', 5), (''FRIDAY'', 5),
      (''SAT'', 6), (''SATURDAY'', 6)]"

text \<open>
  \<open>addRange\<close>: the loop \<open>for i := start; i <= end; i += step\<close>, with the 64-bit
  wrap-around of \<open>i += step\<close>. Every call site passes a step that is 1 or was checked
  positive, an end of at most 59, and values of Go's type \<open>int\<close>; outside these the Go
  loop need not return, and the model leaves the set as it is.
\<close>

function addRange :: "int set \<Rightarrow> int \<Rightarrow> int \<Rightarrow> int \<Rightarrow> int set" where
  "addRange vals i e step =
     (if i \<le> e \<and> 0 < step \<and> step \<le> maxInt \<and> minInt \<le> i \<and> e < 2 ^ 61
      then addRange (insert i vals) (wrap64 (i + step)) e step
      else vals)"
  by pat_completeness auto

text \<open>
  The loop ends for every positive step: while no addition can overflow the cursor
  climbs towards the end; once the step is so large that additions overflow, a positive
  cursor comes back smaller after two additions, and a cursor at or below zero is soon
  carried past the end.
\<close>

definition addRangeMeasure :: "int set \<times> int \<times> int \<times> int \<Rightarrow> nat" where
  "addRangeMeasure = (\<lambda>(vals, i, e, step).
     if \<not> (i \<le> e \<and> 0 < step \<and> step \<le> maxInt \<and> minInt \<le> i \<and> e < 2 ^ 61) then 0
     else if e + step \<le> maxInt then nat (e - i) + 1
     else if 0 < i then nat (4 * i + 2)
     else if e < i + step then 1
     else if i + step \<le> 0 then 2
     else nat (4 * (i + step) + 3))"

termination addRange
proof (relation "measure addRangeMeasure", simp, goal_cases)
  case (1 vals i e step)
  then have g: "i \<le> e" "0 < step" "step < 2 ^ 63" "- (2 ^ 63) \<le> i" "e < 2 ^ 61"
    by (auto simp: minInt_def maxInt_def)
  show ?case
  proof (cases "i + step < 2 ^ 63")
    case True
    then have w: "wrap64 (i + step) = i + step"
      using g unfolding wrap64_def by (simp add: mod_pos_pos_trivial)
    show ?thesis using g True unfolding w addRangeMeasure_def
      by (auto simp: minInt_def maxInt_def)
  next
    case False
    have "(i + step + 2 ^ 63) mod 2 ^ 64 = (i + step + 2 ^ 63 - 2 ^ 64) mod 2 ^ 64"
      by (metis minus_mod_self2)
    also have "\<dots> = i + step + 2 ^ 63 - 2 ^ 64"
      using g False by (intro mod_pos_pos_trivial) auto
    finally have w: "wrap64 (i + step) = i + step - 2 ^ 64"
      unfolding wrap64_def by simp
    show ?thesis using g False unfolding w addRangeMeasure_def
      by (auto simp: minInt_def maxInt_def)
  qed
qed

declare addRange.simps [simp del]

text \<open>
  The parser methods. The receiver's \<open>fieldType\<close> is the argument \<open>ft\<close>, its \<open>min\<close> and
  \<open>max\<close> are \<open>boundMin ft\<close> and \<open>boundMax ft\<close>; the field's value map is threaded
  through as \<open>vals\<close>, and a returned error is \<open>Inl\<close>.
\<close>

definition parseValue :: "FieldType \<Rightarrow> string \<Rightarrow> error + int" where
  "parseValue ft s0 =
     (let s = ToUpper (TrimSpace s0)
      in if ft = FieldMonth \<and> monthNames s \<noteq> None then Inr (the (monthNames s))
         else if ft = FieldDayOfWeek \<and> dayNames s \<noteq> None then Inr (the (dayNames s))
         else (case Atoi s of
                 None \<Rightarrow> Inl (NewFieldError ft s ''invalid value'')
               | Some v \<Rightarrow> Inr v))"

definition validateValue :: "FieldType \<Rightarrow> int \<Rightarrow> string \<Rightarrow> error option" where
  "validateValue ft v original =
     (if v < boundMin ft \<or> boundMax ft < v
      then Some (NewFieldError ft original ''value out of range'')
      else None)"

definition isNamedValue :: "FieldType \<Rightarrow> string \<Rightarrow> bool" where
  "isNamedValue ft part =
     (let upper = ToUpper (TrimSpace part)
      in if ft = FieldMonth then monthNames upper \<noteq> None
         else if ft = FieldDayOfWeek then dayNames upper \<noteq> None
         else False)"

definition hasSpecialChars :: "FieldType \<Rightarrow> string \<Rightarrow> bool" where
  "hasSpecialChars ft part =
     (let upper = ToUpper part
      in case ft of
           FieldDayOfMonth \<Rightarrow>
             upper = ''L'' \<or> upper = ''LW'' \<or> HasSuffix upper ''W'' \<or> HasPrefix upper ''L''
         | FieldDayOfWeek \<Rightarrow> HasSuffix upper ''L'' \<or> ContainsChar upper (CHR ''#'')
         | _ \<Rightarrow> False)"

definition parseSingle :: "FieldType \<Rightarrow> int set \<Rightarrow> string \<Rightarrow> error + int set" where
  "parseSingle ft vals part =
     (case parseValue ft part of
        Inl err \<Rightarrow> Inl err
      | Inr v \<Rightarrow>
          (case validateValue ft v part of
             Some err \<Rightarrow> Inl err
           | None \<Rightarrow> Inr (insert v vals)))"

text \<open>
  The checks that \<open>parseRange\<close> and the range branch of \<open>parseStep\<close> make, in the same
  order in both: both values are parsed, then both are validated, then the order is
  checked. (In the range branch of \<open>parseStep\<close> the base contains a hyphen, so its split
  has two parts, and the last case of the model there cannot occur.)
\<close>

definition parseBounds :: "FieldType \<Rightarrow> string \<Rightarrow> string \<Rightarrow> error + int \<times> int" where
  "parseBounds ft a b =
     (case parseValue ft a of
        Inl err \<Rightarrow> Inl err
      | Inr start \<Rightarrow>
          (case parseValue ft b of
             Inl err \<Rightarrow> Inl err
           | Inr end' \<Rightarrow>
               (case validateValue ft start a of
                  Some err \<Rightarrow> Inl err
                | None \<Rightarrow>
                    (case validateValue ft end' b of
                       Some err \<Rightarrow> Inl err
                     | None \<Rightarrow>
                         if end' < start then Inl (RangeError ft start end')
                         else Inr (start, end')))))"

definition parseRange :: "FieldType \<Rightarrow> int set \<Rightarrow> string \<Rightarrow> error + int set" where
  "parseRange ft vals part =
     (case SplitN2 part (CHR ''-'') of
        [a, b] \<Rightarrow>
          (case parseBounds ft a b of
             Inl err \<Rightarrow> Inl err
           | Inr (start, end') \<Rightarrow> Inr (addRange vals start end' 1))
      | _ \<Rightarrow> Inl (NewFieldError ft part ''invalid range format''))"

definition parseStep :: "FieldType \<Rightarrow> int set \<Rightarrow> string \<Rightarrow> error + int set" where
  "parseStep ft vals part =
     (case SplitN2 part (CHR ''/'') of
        [baseExpr, stepStr] \<Rightarrow>
          (case Atoi stepStr of
             None \<Rightarrow> Inl (NewFieldError ft stepStr ''step must be a number'')
           | Some step \<Rightarrow>
               if step \<le> 0 then Inl (StepError ft step)
               else if baseExpr = ''*''
               then Inr (addRange vals (boundMin ft) (boundMax ft) step)
               else if ContainsChar baseExpr (CHR ''-'')
               then (case SplitN2 baseExpr (CHR ''-'') of
                       [a, b] \<Rightarrow>
                         (case parseBounds ft a b of
                            Inl err \<Rightarrow> Inl err
                          | Inr (start, end') \<Rightarrow> Inr (addRange vals start end' step))
                     | _ \<Rightarrow> Inl (NewFieldError ft baseExpr ''invalid range format''))
               else (case parseValue ft baseExpr of
                       Inl err \<Rightarrow> Inl err
                     | Inr start \<Rightarrow>
                         (case validateValue ft start baseExpr of
                            Some err \<Rightarrow> Inl err
                          | None \<Rightarrow> Inr (addRange vals start (boundMax ft) step))))
      | _ \<Rightarrow> Inl (NewFieldError ft part ''invalid step format''))"

text \<open>The special tokens; \<open>part\<close> arrives upper-cased.\<close>

definition parseDayOfMonthSpecial :: "FieldType \<Rightarrow> int set \<Rightarrow> string \<Rightarrow> error + int set" where
  "parseDayOfMonthSpecial ft vals part =
     (if part = ''L'' then Inr (insert 32 vals)
      else if part = ''LW'' then Inr (insert 33 vals)
      else if HasPrefix part ''L-''
      then (case Atoi (drop 2 part) of
              None \<Rightarrow> Inl (NewFieldError ft part ''invalid L-N format'')
            | Some offset \<Rightarrow>
                if offset < 0 \<or> 30 < offset
                then Inl (NewFieldError ft part ''invalid L-N format'')
                else Inr (insert (32 + offset) vals))
      else if HasSuffix part ''W''
      then (case Atoi (butlast part) of
              None \<Rightarrow> Inl (NewFieldError ft part ''invalid NW format'')
            | Some day \<Rightarrow>
                if day < 1 \<or> 31 < day
                then Inl (NewFieldError ft part ''day must be between 1 and 31'')
                else Inr (insert (100 + day) vals))
      else Inl (NewFieldError ft part ''unrecognized special character combination''))"

definition parseDayOfWeekSpecial :: "FieldType \<Rightarrow> int set \<Rightarrow> string \<Rightarrow> error + int set" where
  "parseDayOfWeekSpecial ft vals part =
     (if HasSuffix part ''L''
      then (case parseValue ft (butlast part) of
              Inl err \<Rightarrow> Inl err
            | Inr day \<Rightarrow>
                if day < 0 \<or> 6 < day
                then Inl (NewFieldError ft part ''day must be between 0 and 6'')
                else Inr (insert (10 + day) vals))
      else if ContainsChar part (CHR ''#'')
      then (case SplitN2 part (CHR ''#'') of
              [d, k] \<Rightarrow>
                (case parseValue ft d of
                   Inl err \<Rightarrow> Inl err
                 | Inr day \<Rightarrow>
                     if day < 0 \<or> 6 < day
                     then Inl (NewFieldError ft part ''day must be between 0 and 6'')
                     else (case Atoi k of
                             None \<Rightarrow>
                               Inl (NewFieldError ft part ''occurrence must be between 1 and 5'')
                           | Some occurrence \<Rightarrow>
                               if occurrence < 1 \<or> 5 < occurrence
                               then Inl (NewFieldError ft part
                                           ''occurrence must be between 1 and 5'')
                               else Inr (insert (20 + day * 10 + occurrence) vals)))
            | _ \<Rightarrow> Inl (NewFieldError ft part ''invalid N#M format''))
      else Inl (NewFieldError ft part ''unrecognized special character combination''))"

definition parseSpecial :: "FieldType \<Rightarrow> int set \<Rightarrow> string \<Rightarrow> error + int set" where
  "parseSpecial ft vals part =
     (let upperPart = ToUpper part
      in case ft of
           FieldDayOfMonth \<Rightarrow> parseDayOfMonthSpecial ft vals upperPart
         | FieldDayOfWeek \<Rightarrow> parseDayOfWeekSpecial ft vals upperPart
         | _ \<Rightarrow> Inl (NewFieldError ft part
                        ''special characters L, W, # not allowed in this field''))"

definition parsePart :: "FieldType \<Rightarrow> int set \<Rightarrow> string \<Rightarrow> error + int set" where
  "parsePart ft vals part =
     (if ContainsChar part (CHR ''/'') then parseStep ft vals part
      else if ContainsChar part (CHR ''-'')
      then (if HasPrefix (ToUpper part) ''L-'' \<and> ft = FieldDayOfMonth
            then parseSpecial ft vals part
            else parseRange ft vals part)
      else if isNamedValue ft part then parseSingle ft vals part
      else if hasSpecialChars ft part then parseSpecial ft vals part
      else parseSingle ft vals part)"

text \<open>The loop of \<open>Parse\<close> over the comma-separated parts; the first error ends it.\<close>

fun parseParts :: "FieldType \<Rightarrow> int set \<Rightarrow> string list \<Rightarrow> error + int set" where
  "parseParts ft vals [] = Inr vals"
| "parseParts ft vals (p # ps) =
     (let part = TrimSpace p
      in if part = [] then parseParts ft vals ps
         else (case parsePart ft vals part of
                 Inl err \<Rightarrow> Inl err
               | Inr vals' \<Rightarrow> parseParts ft vals' ps))"

definition FieldParser_Parse :: "FieldType \<Rightarrow> string \<Rightarrow> error + Field" where
  "FieldParser_Parse ft expr =
     (if expr = [] then Inl (NewFieldError ft expr ''field cannot be empty'')
      else if expr = ''*'' \<or> expr = ''?''
      then Inr \<lparr>Type = ft, Values = addRange {} (boundMin ft) (boundMax ft) 1, Raw = expr\<rparr>
      else (case parseParts ft {} (Split expr (CHR '','')) of
              Inl err \<Rightarrow> Inl err
            | Inr vals \<Rightarrow>
                if vals = {} then Inl (NewFieldError ft expr ''no valid values found'')
                else Inr \<lparr>Type = ft, Values = vals, Raw = expr\<rparr>))"

section \<open>Expressions and the expression parser (cron.go, parser.go)\<close>

datatype ExpressionType = StandardCron | ExtendedCron

record Expression =
  ERaw :: string
  EType :: ExpressionType
  Second :: Field
  Minute :: Field
  Hour :: Field
  DayOfMonth :: Field
  Month :: Field
  DayOfWeek :: Field
  HasLastDayOfMonth :: bool
  HasLastWeekday :: bool
  HasNearestWeekday :: bool
  HasNthDayOfWeek :: bool
  HasLastDayOfWeek :: bool

definition predefinedExpressions :: "string \<rightharpoonup> string" where
  "predefinedExpressions = map_of
     [(''@yearly'', ''0 0 1 1 *''), (''@annually'', ''0 0 1 1 *''),
      (''@monthly'', ''0 0 1 * *''), (''@weekly'', ''0 0 * * 0''),
      (''@daily'', ''0 0 * * *''), (''@midnight'', ''0 0 * * *''),
      (''@hourly'', ''0 * * * *'')]"

record cronParser =
  seconds :: bool

type_synonym ParserOption = "cronParser \<Rightarrow> cronParser"


text \<open>
  \<open>detectSpecialFlags\<close> walks over both value maps and sets a flag for every code it
  recognises; a flag ends up set exactly when its map holds such a code.
\<close>

definition detectSpecialFlags :: "Expression \<Rightarrow> Expression" where
  "detectSpecialFlags e =
     e\<lparr>HasLastDayOfMonth := HasLastDayOfMonth e \<or> 32 \<in> Values (DayOfMonth e),
       HasLastWeekday := HasLastWeekday e \<or> 33 \<in> Values (DayOfMonth e),
       HasNearestWeekday := HasNearestWeekday e \<or> Values (DayOfMonth e) \<inter> {101..131} \<noteq> {},
       HasLastDayOfWeek := HasLastDayOfWeek e \<or> Values (DayOfWeek e) \<inter> {10..16} \<noteq> {},
       HasNthDayOfWeek := HasNthDayOfWeek e \<or> Values (DayOfWeek e) \<inter> {21..75} \<noteq> {}\<rparr>"

definition HasSpecialDayHandling :: "Expression \<Rightarrow> bool" where
  "HasSpecialDayHandling e =
     (HasLastDayOfMonth e \<or> HasLastWeekday e \<or> HasNearestWeekday e
      \<or> HasNthDayOfWeek e \<or> HasLastDayOfWeek e)"

text \<open>
  \<open>parseCron\<close>. The options are applied to a fresh \<open>cronParser\<close>, which nothing reads
  afterwards. With five fields the second field is parsed from the text \<open>0\<close>.
\<close>

definition parseFields :: "string \<Rightarrow> ExpressionType \<Rightarrow> string list \<Rightarrow> error + Expression" where
  "parseFields expr ty fs =
     (case fs of
        [secondExpr, minuteExpr, hourExpr, domExpr, monthExpr, dowExpr] \<Rightarrow>
          (case FieldParser_Parse FieldSecond secondExpr of
             Inl err \<Rightarrow> Inl err
           | Inr sec \<Rightarrow>
          (case FieldParser_Parse FieldMinute minuteExpr of
             Inl err \<Rightarrow> Inl err
           | Inr minu \<Rightarrow>
          (case FieldParser_Parse FieldHour hourExpr of
             Inl err \<Rightarrow> Inl err
           | Inr hr \<Rightarrow>
          (case FieldParser_Parse FieldDayOfMonth domExpr of
             Inl err \<Rightarrow> Inl err
           | Inr dom' \<Rightarrow>
          (case FieldParser_Parse FieldMonth monthExpr of
             Inl err \<Rightarrow> Inl err
           | Inr mon \<Rightarrow>
          (case FieldParser_Parse FieldDayOfWeek dowExpr of
             Inl err \<Rightarrow> Inl err
           | Inr dow \<Rightarrow>
               Inr (detectSpecialFlags
                 \<lparr>ERaw = expr, EType = ty, Second = sec, Minute = minu, Hour = hr,
                  DayOfMonth = dom', Month = mon, DayOfWeek = dow,
                  HasLastDayOfMonth = False, HasLastWeekday = False,
                  HasNearestWeekday = False, HasNthDayOfWeek = False,
                  HasLastDayOfWeek = False\<rparr>)))))))
      | _ \<Rightarrow> Inl ErrInvalidFieldCount)"

definition parseCron :: "string \<Rightarrow> ParserOption list \<Rightarrow> error + Expression" where
  "parseCron expr0 opts =
     (let parser = fold (\<lambda>opt p. opt p) opts \<lparr>seconds = False\<rparr>;
          expr1 = TrimSpace expr0
      in if expr1 = [] then Inl ErrEmptyExpression
         else if HasPrefix expr1 ''@'' \<and> predefinedExpressions (ToLower expr1) = None
         then Inl (NewParseError expr1 [] [] ''unknown predefined expression'')
         else (let expr = (if HasPrefix expr1 ''@''
                           then the (predefinedExpressions (ToLower expr1)) else expr1);
                   fields = Fields expr;
                   fieldCount = length fields
               in if fieldCount < 5 \<or> 6 < fieldCount then Inl ErrInvalidFieldCount
                  else if fieldCount = 6 then parseFields expr ExtendedCron fields
                  else parseFields expr StandardCron (''0'' # fields)))"

definition Parse :: "string \<Rightarrow> error + Expression" where
  "Parse expr = parseCron expr []"


text \<open>\<open>Expression.Matches\<close>.\<close>

definition Matches :: "Expression \<Rightarrow> int \<Rightarrow> int \<Rightarrow> int \<Rightarrow> int \<Rightarrow> int \<Rightarrow> int \<Rightarrow> bool" where
  "Matches e second minute hour day month weekday =
     (if \<not> Contains (Second e) second then False
      else if \<not> Contains (Minute e) minute then False
      else if \<not> Contains (Hour e) hour then False
      else if \<not> Contains (Month e) month then False
      else (let domMatch = Contains (DayOfMonth e) day;
                dowMatch = Contains (DayOfWeek e) weekday
            in if IsAll (DayOfMonth e) \<and> IsAll (DayOfWeek e) then True
               else if IsAll (DayOfMonth e) then dowMatch
               else if IsAll (DayOfWeek e) then domMatch
               else domMatch \<or> dowMatch))"

section \<open>Instants, locations and the calendar (Go package time)\<close>

text \<open>
  A location is the offset from UTC (in seconds) in force before its first transition,
  and its transitions in ascending order: the Unix second at which each happens and the
  offset from then on. \<open>lookup\<close> returns the offset in force at a Unix second and the
  interval in which that offset is valid, as \<open>Location.lookup\<close> does.
\<close>

record Location =
  zoneInit :: int
  zoneTrans :: "(int \<times> int) list"

definition UTC :: Location where
  "UTC = \<lparr>zoneInit = 0, zoneTrans = []\<rparr>"

fun lookupFrom :: "int \<Rightarrow> int \<Rightarrow> (int \<times> int) list \<Rightarrow> int \<Rightarrow> int \<times> int \<times> int" where
  "lookupFrom off start [] u = (off, start, maxInt)"
| "lookupFrom off start ((w, off') # rest) u =
     (if u < w then (off, start, w) else lookupFrom off' w rest u)"

definition lookup :: "Location \<Rightarrow> int \<Rightarrow> int \<times> int \<times> int" where
  "lookup loc u = lookupFrom (zoneInit loc) minInt (zoneTrans loc) u"

text \<open>
  An instant: Unix seconds, nanoseconds within the second, and the location in which it
  is displayed. The values are taken to lie within the range of Go's representation.
\<close>

record Time =
  unixSec :: int
  nanos :: int
  tloc :: Location

definition isLeap :: "int \<Rightarrow> bool" where
  "isLeap year = (year mod 4 = 0 \<and> (year mod 100 \<noteq> 0 \<or> year mod 400 = 0))"

text \<open>Days before each month of a common year, and days from 1970-01-01 to 1 January.\<close>

definition daysBefore :: "int \<Rightarrow> int" where
  "daysBefore month =
     [0, 31, 59, 90, 120, 151, 181, 212, 243, 273, 304, 334] ! nat (month - 1)"

definition daysSinceEpoch :: "int \<Rightarrow> int" where
  "daysSinceEpoch year =
     365 * (year - 1970)
     + ((year - 1) div 4 - (year - 1) div 100 + (year - 1) div 400) - 477"

text \<open>
  \<open>norm\<close> carries the overflow of \<open>lo\<close> into \<open>hi\<close>, leaving \<open>0 \<le> lo < base\<close>.
\<close>

definition norm :: "int \<Rightarrow> int \<Rightarrow> int \<Rightarrow> int \<times> int" where
  "norm hi lo base = (hi + lo div base, lo mod base)"

text \<open>
  \<open>time.Date\<close>, as Go's library computes it. Out-of-range months, days, hours, minutes
  and seconds are normalised, and the wall-clock reading is counted in seconds as if it
  were UTC (\<open>unix\<close>). The location is looked up at \<open>unix\<close>; with an offset other than
  zero, \<open>utc = unix - offset\<close> is the candidate instant, and if it lies outside the
  interval in which that offset is in force, the offset in force at \<open>utc\<close> is taken
  instead. For a reading that the clock repeats or skips this yields one of the two
  instants in question; Go's documentation promises no more ("a time that is correct in
  one of the two zones involved in the transition, but it does not guarantee which").
\<close>

definition Date :: "int \<Rightarrow> int \<Rightarrow> int \<Rightarrow> int \<Rightarrow> int \<Rightarrow> int \<Rightarrow> int \<Rightarrow> Location \<Rightarrow> Time" where
  "Date year month day hour minute sec nsec loc =
     (let (year1, m) = norm year (month - 1) 12;
          month1 = m + 1;
          (sec1, nsec1) = norm sec nsec 1000000000;
          (min1, sec2) = norm minute sec1 60;
          (hour1, min2) = norm hour min1 60;
          (day1, hour2) = norm day hour1 24;
          d = daysSinceEpoch year1 + daysBefore month1
              + (if isLeap year1 \<and> 3 \<le> month1 then 1 else 0) + (day1 - 1);
          unix = d * 86400 + hour2 * 3600 + min2 * 60 + sec2;
          (offset, start, end') = lookup loc unix;
          unix' = (if offset \<noteq> 0
                   then (let utc = unix - offset;
                             offset' = (if utc < start \<or> end' \<le> utc
                                        then fst (lookup loc utc) else offset)
                         in unix - offset')
                   else unix)
      in \<lparr>unixSec = unix', nanos = nsec1, tloc = loc\<rparr>)"

text \<open>The wall-clock reading of an instant in its location.\<close>

definition localSec :: "Time \<Rightarrow> int" where
  "localSec t = unixSec t + fst (lookup (tloc t) (unixSec t))"

text \<open>The proleptic Gregorian date (year, month, day) of a day number (day 0 is 1970-01-01).\<close>

definition civilFromDays :: "int \<Rightarrow> int \<times> int \<times> int" where
  "civilFromDays z0 =
     (let z = z0 + 719468;
          era = z div 146097;
          doe = z - era * 146097;
          yoe = (doe - doe div 1460 + doe div 36524 - doe div 146096) div 365;
          y = yoe + era * 400;
          doy = doe - (365 * yoe + yoe div 4 - yoe div 100);
          mp = (5 * doy + 2) div 153;
          d = doy - (153 * mp + 2) div 5 + 1;
          m = (if mp < 10 then mp + 3 else mp - 9)
      in (if m \<le> 2 then y + 1 else y, m, d))"

definition Time_Year :: "Time \<Rightarrow> int" where
  "Time_Year t = fst (civilFromDays (localSec t div 86400))"

definition Time_Month :: "Time \<Rightarrow> int" where
  "Time_Month t = fst (snd (civilFromDays (localSec t div 86400)))"

definition Time_Day :: "Time \<Rightarrow> int" where
  "Time_Day t = snd (snd (civilFromDays (localSec t div 86400)))"

definition Time_Hour :: "Time \<Rightarrow> int" where
  "Time_Hour t = localSec t mod 86400 div 3600"

definition Time_Minute :: "Time \<Rightarrow> int" where
  "Time_Minute t = localSec t mod 3600 div 60"

definition Time_Second :: "Time \<Rightarrow> int" where
  "Time_Second t = localSec t mod 60"

text \<open>Sunday is 0; 1970-01-01 was a Thursday.\<close>

definition Time_Weekday :: "Time \<Rightarrow> int" where
  "Time_Weekday t = (localSec t div 86400 + 4) mod 7"

definition In :: "Time \<Rightarrow> Location \<Rightarrow> Time" where
  "In t loc = t\<lparr>tloc := loc\<rparr>"

text \<open>\<open>t.Add(d)\<close> for a duration of whole seconds, and \<open>t.Truncate(time.Second)\<close>.\<close>

definition Add :: "Time \<Rightarrow> int \<Rightarrow> Time" where
  "Add t secs = t\<lparr>unixSec := unixSec t + secs\<rparr>"

definition TruncateSecond :: "Time \<Rightarrow> Time" where
  "TruncateSecond t = t\<lparr>nanos := 0\<rparr>"

definition Before :: "Time \<Rightarrow> Time \<Rightarrow> bool" where
  "Before t u = (unixSec t < unixSec u \<or> (unixSec t = unixSec u \<and> nanos t < nanos u))"

definition After :: "Time \<Rightarrow> Time \<Rightarrow> bool" where
  "After t u = (unixSec u < unixSec t \<or> (unixSec t = unixSec u \<and> nanos u < nanos t))"

definition AddDate :: "Time \<Rightarrow> int \<Rightarrow> int \<Rightarrow> int \<Rightarrow> Time" where
  "AddDate t years months days =
     Date (Time_Year t + years) (Time_Month t + months) (Time_Day t + days)
          (Time_Hour t) (Time_Minute t) (Time_Second t) (nanos t) (tloc t)"

section \<open>The scheduler (scheduler.go)\<close>

text \<open>
  A function of the scheduler that contains a loop over instants returns an option:
  \<open>None\<close> says that the Go function does not return.
\<close>

record Scheduler =
  expr :: Expression
  location :: Location

type_synonym SchedulerOption = "Scheduler \<Rightarrow> Scheduler"

definition WithLocation :: "Location \<Rightarrow> SchedulerOption" where
  "WithLocation loc s = s\<lparr>location := loc\<rparr>"

definition NewScheduler :: "Expression \<Rightarrow> SchedulerOption list \<Rightarrow> Scheduler" where
  "NewScheduler e opts = fold (\<lambda>opt s. opt s) opts \<lparr>expr = e, location = UTC\<rparr>"

definition DefaultMaxIterations :: int where
  "DefaultMaxIterations = 366 * 24 * 60"

definition DefaultSearchYears :: int where
  "DefaultSearchYears = 5"

subsection \<open>Calendar helpers\<close>

definition lastDayOfMonth :: "Scheduler \<Rightarrow> int \<Rightarrow> int \<Rightarrow> int" where
  "lastDayOfMonth s year month =
     (let firstOfNext = Date year (month + 1) 1 0 0 0 0 (location s);
          lastDay = AddDate firstOfNext 0 0 (- 1)
      in Time_Day lastDay)"

partial_function (option) backToWorkday :: "Time \<Rightarrow> Time option" where
  "backToWorkday t =
     (if Time_Weekday t = 6 \<or> Time_Weekday t = 0
      then backToWorkday (AddDate t 0 0 (- 1))
      else Some t)"

declare backToWorkday.simps [code]

definition lastWeekdayOfMonth :: "Scheduler \<Rightarrow> int \<Rightarrow> int \<Rightarrow> int option" where
  "lastWeekdayOfMonth s year month =
     (let lastDay = lastDayOfMonth s year month
      in map_option Time_Day
           (backToWorkday (Date year month lastDay 0 0 0 0 (location s))))"

definition nearestWeekday :: "Scheduler \<Rightarrow> int \<Rightarrow> int \<Rightarrow> int \<Rightarrow> int" where
  "nearestWeekday s year month day0 =
     (let lastDay = lastDayOfMonth s year month;
          day = (if lastDay < day0 then lastDay else day0);
          weekday = Time_Weekday (Date year month day 0 0 0 0 (location s))
      in if weekday = 6 then (if 1 < day then day - 1 else day + 2)
         else if weekday = 0 then (if day < lastDay then day + 1 else day - 2)
         else day)"

partial_function (option) backToWeekday :: "int \<Rightarrow> Time \<Rightarrow> Time option" where
  "backToWeekday targetWeekday t =
     (if Time_Weekday t \<noteq> targetWeekday
      then backToWeekday targetWeekday (AddDate t 0 0 (- 1))
      else Some t)"

declare backToWeekday.simps [code]

definition lastWeekdayOccurrence :: "Scheduler \<Rightarrow> int \<Rightarrow> int \<Rightarrow> int \<Rightarrow> int option" where
  "lastWeekdayOccurrence s year month targetWeekday =
     (let lastDay = lastDayOfMonth s year month
      in map_option Time_Day
           (backToWeekday targetWeekday (Date year month lastDay 0 0 0 0 (location s))))"

partial_function (option) forwardToWeekday :: "int \<Rightarrow> Time \<Rightarrow> Time option" where
  "forwardToWeekday targetWeekday t =
     (if Time_Weekday t \<noteq> targetWeekday
      then forwardToWeekday targetWeekday (AddDate t 0 0 1)
      else Some t)"

declare forwardToWeekday.simps [code]

definition nthWeekdayOfMonth :: "Scheduler \<Rightarrow> int \<Rightarrow> int \<Rightarrow> int \<Rightarrow> int \<Rightarrow> int option" where
  "nthWeekdayOfMonth s year month targetWeekday n =
     do {
       t0 \<leftarrow> forwardToWeekday targetWeekday (Date year month 1 0 0 0 0 (location s));
       let t = AddDate t0 0 0 ((n - 1) * 7);
       Some (if Time_Month t \<noteq> month then 0 else Time_Day t)
     }"

subsection \<open>Day matching\<close>

text \<open>
  The two loops of \<open>matchesSpecialDay\<close> over the day-of-week codes call helpers that
  loop themselves. Go visits the keys of the map in no fixed order; the model visits the
  codes of the tested range in ascending order and skips those that are not in the map.
\<close>

fun anyLastOccurrence ::
  "Scheduler \<Rightarrow> int \<Rightarrow> int \<Rightarrow> int \<Rightarrow> int \<Rightarrow> int list \<Rightarrow> bool option" where
  "anyLastOccurrence s year month day weekday [] = Some False"
| "anyLastOccurrence s year month day weekday (v # vs) =
     (if v \<in> Values (DayOfWeek (expr s))
      then do {
        lastOccurrence \<leftarrow> lastWeekdayOccurrence s year month (v - 10);
        if day = lastOccurrence \<and> weekday = v - 10 then Some True
        else anyLastOccurrence s year month day weekday vs
      }
      else anyLastOccurrence s year month day weekday vs)"

fun anyNthOccurrence ::
  "Scheduler \<Rightarrow> int \<Rightarrow> int \<Rightarrow> int \<Rightarrow> int \<Rightarrow> int list \<Rightarrow> bool option" where
  "anyNthOccurrence s year month day weekday [] = Some False"
| "anyNthOccurrence s year month day weekday (v # vs) =
     (if v \<in> Values (DayOfWeek (expr s))
      then do {
        nthDay \<leftarrow> nthWeekdayOfMonth s year month ((v - 20) div 10) ((v - 20) mod 10);
        if 0 < nthDay \<and> day = nthDay \<and> weekday = (v - 20) div 10 then Some True
        else anyNthOccurrence s year month day weekday vs
      }
      else anyNthOccurrence s year month day weekday vs)"

definition matchesSpecialDay :: "Scheduler \<Rightarrow> Time \<Rightarrow> bool option" where
  "matchesSpecialDay s t =
     (let e = expr s;
          day = Time_Day t;
          weekday = Time_Weekday t;
          month = Time_Month t;
          year = Time_Year t;
          lastDay = lastDayOfMonth s year month
      in if HasLastDayOfMonth e \<and> 32 \<in> Values (DayOfMonth e) \<and> day = lastDay
         then Some True
         else if \<exists>v \<in> Values (DayOfMonth e).
                   32 < v \<and> v < 100 \<and> 0 < lastDay - (v - 32) \<and> day = lastDay - (v - 32)
         then Some True
         else do {
           lw \<leftarrow> (if HasLastWeekday e \<and> 33 \<in> Values (DayOfMonth e)
                  then map_option (\<lambda>lastWeekday. day = lastWeekday)
                         (lastWeekdayOfMonth s year month)
                  else Some False);
           if lw then Some True
           else if HasNearestWeekday e
                   \<and> (\<exists>v \<in> Values (DayOfMonth e).
                         101 \<le> v \<and> v \<le> 131 \<and> day = nearestWeekday s year month (v - 100))
           then Some True
           else do {
             wl \<leftarrow> (if HasLastDayOfWeek e
                    then anyLastOccurrence s year month day weekday [10..16]
                    else Some False);
             if wl then Some True
             else do {
               nth \<leftarrow> (if HasNthDayOfWeek e
                       then anyNthOccurrence s year month day weekday [21..75]
                       else Some False);
               if nth then Some True
               else (let domMatch = Contains (DayOfMonth e) day;
                         dowMatch = Contains (DayOfWeek e) weekday
                     in if IsAll (DayOfMonth e) \<and> IsAll (DayOfWeek e) then Some True
                        else if IsAll (DayOfMonth e) then Some dowMatch
                        else if IsAll (DayOfWeek e) then Some domMatch
                        else Some (domMatch \<or> dowMatch))
             }
           }
         })"

definition matchesDay :: "Scheduler \<Rightarrow> Time \<Rightarrow> bool option" where
  "matchesDay s t =
     (let e = expr s;
          day = Time_Day t;
          weekday = Time_Weekday t
      in if HasSpecialDayHandling e then matchesSpecialDay s t
         else (let domMatch = Contains (DayOfMonth e) day;
                   dowMatch = Contains (DayOfWeek e) weekday
               in if IsAll (DayOfMonth e) \<and> IsAll (DayOfWeek e) then Some True
                  else if IsAll (DayOfMonth e) then Some dowMatch
                  else if IsAll (DayOfWeek e) then Some domMatch
                  else Some (domMatch \<or> dowMatch)))"

subsection \<open>Time navigation\<close>

text \<open>The loops of \<open>nextMonth\<close> and \<open>prevMonth\<close> run at most twelve times.\<close>

fun nextMonthLoop :: "Scheduler \<Rightarrow> nat \<Rightarrow> int \<Rightarrow> int \<Rightarrow> Time" where
  "nextMonthLoop s 0 year month = Date (year + 1) 1 1 0 0 0 0 (location s)"
| "nextMonthLoop s (Suc k) year month =
     (let month1 = (if 12 < month + 1 then 1 else month + 1);
          year1 = (if 12 < month + 1 then year + 1 else year)
      in if Contains (Month (expr s)) month1
         then Date year1 month1 1 0 0 0 0 (location s)
         else nextMonthLoop s k year1 month1)"

definition nextMonth :: "Scheduler \<Rightarrow> Time \<Rightarrow> Time" where
  "nextMonth s t = nextMonthLoop s 12 (Time_Year t) (Time_Month t)"

fun prevMonthLoop :: "Scheduler \<Rightarrow> nat \<Rightarrow> int \<Rightarrow> int \<Rightarrow> Time" where
  "prevMonthLoop s 0 year month = Date (year - 1) 12 31 23 59 59 0 (location s)"
| "prevMonthLoop s (Suc k) year month =
     (let month1 = (if month - 1 < 1 then 12 else month - 1);
          year1 = (if month - 1 < 1 then year - 1 else year)
      in if Contains (Month (expr s)) month1
         then Date year1 month1 (lastDayOfMonth s year1 month1) 23 59 59 0 (location s)
         else prevMonthLoop s k year1 month1)"

definition prevMonth :: "Scheduler \<Rightarrow> Time \<Rightarrow> Time" where
  "prevMonth s t = prevMonthLoop s 12 (Time_Year t) (Time_Month t)"

definition alignToNextMonth :: "Scheduler \<Rightarrow> Time \<Rightarrow> Time" where
  "alignToNextMonth s t =
     (if \<not> Contains (Month (expr s)) (Time_Month t) then nextMonth s t else t)"

definition nextDay :: "Scheduler \<Rightarrow> Time \<Rightarrow> Time" where
  "nextDay s t = Date (Time_Year t) (Time_Month t) (Time_Day t + 1) 0 0 0 0 (location s)"

definition prevDay :: "Scheduler \<Rightarrow> Time \<Rightarrow> Time" where
  "prevDay s t = Date (Time_Year t) (Time_Month t) (Time_Day t - 1) 23 59 59 0 (location s)"

definition nextHour :: "Scheduler \<Rightarrow> Time \<Rightarrow> Time" where
  "nextHour s t =
     Date (Time_Year t) (Time_Month t) (Time_Day t) (Time_Hour t + 1) 0 0 0 (location s)"

definition prevHour :: "Scheduler \<Rightarrow> Time \<Rightarrow> Time" where
  "prevHour s t =
     Date (Time_Year t) (Time_Month t) (Time_Day t) (Time_Hour t - 1) 59 59 0 (location s)"

definition nextMinute :: "Scheduler \<Rightarrow> Time \<Rightarrow> Time" where
  "nextMinute s t =
     Date (Time_Year t) (Time_Month t) (Time_Day t) (Time_Hour t) (Time_Minute t + 1) 0 0
          (location s)"

definition prevMinute :: "Scheduler \<Rightarrow> Time \<Rightarrow> Time" where
  "prevMinute s t =
     Date (Time_Year t) (Time_Month t) (Time_Day t) (Time_Hour t) (Time_Minute t - 1) 59 0
          (location s)"

definition nextSecond :: "Scheduler \<Rightarrow> Time \<Rightarrow> Time" where
  "nextSecond s t = Add t 1"

definition prevSecond :: "Scheduler \<Rightarrow> Time \<Rightarrow> Time" where
  "prevSecond s t = Add t (- 1)"

subsection \<open>The search\<close>

text \<open>
  The loop of \<open>findNextMatch\<close>. Its result is \<open>Some (Some r)\<close> when \<open>r\<close> is found,
  \<open>Some None\<close> when the loop ends without a match, and \<open>None\<close> when it does not end.
\<close>

partial_function (option) findNextLoop :: "Scheduler \<Rightarrow> Time \<Rightarrow> Time \<Rightarrow> Time option option" where
  "findNextLoop s maxTime t =
     (if Before t maxTime
      then (if \<not> Contains (Month (expr s)) (Time_Month t)
            then findNextLoop s maxTime (nextMonth s t)
            else do {
              dayOk \<leftarrow> matchesDay s t;
              if \<not> dayOk then findNextLoop s maxTime (nextDay s t)
              else if \<not> Contains (Hour (expr s)) (Time_Hour t)
              then findNextLoop s maxTime (nextHour s t)
              else if \<not> Contains (Minute (expr s)) (Time_Minute t)
              then findNextLoop s maxTime (nextMinute s t)
              else if \<not> Contains (Second (expr s)) (Time_Second t)
              then findNextLoop s maxTime (nextSecond s t)
              else Some (Some t)
            })
      else Some None)"

declare findNextLoop.simps [code]

definition findNextMatch :: "Scheduler \<Rightarrow> Time \<Rightarrow> Time \<Rightarrow> Time option option" where
  "findNextMatch s t0 maxTime =
     (let t = alignToNextMonth s t0
      in if After t maxTime then Some None else findNextLoop s maxTime t)"

partial_function (option) findPrevMatch :: "Scheduler \<Rightarrow> Time \<Rightarrow> Time \<Rightarrow> Time option option" where
  "findPrevMatch s t minTime =
     (if After t minTime
      then (if \<not> Contains (Month (expr s)) (Time_Month t)
            then findPrevMatch s (prevMonth s t) minTime
            else do {
              dayOk \<leftarrow> matchesDay s t;
              if \<not> dayOk then findPrevMatch s (prevDay s t) minTime
              else if \<not> Contains (Hour (expr s)) (Time_Hour t)
              then findPrevMatch s (prevHour s t) minTime
              else if \<not> Contains (Minute (expr s)) (Time_Minute t)
              then findPrevMatch s (prevMinute s t) minTime
              else if \<not> Contains (Second (expr s)) (Time_Second t)
              then findPrevMatch s (prevSecond s t) minTime
              else Some (Some t)
            })
      else Some None)"

declare findPrevMatch.simps [code]

text \<open>
  The loops of \<open>NextN\<close> and \<open>PreviousN\<close> count their iterations up to the cap, so they
  end whenever the searches they call do. The result is \<open>Inr\<close> the instant or \<open>Inl\<close> the
  error.
\<close>

function nextNLoop ::
  "Scheduler \<Rightarrow> Time \<Rightarrow> Time \<Rightarrow> int \<Rightarrow> int \<Rightarrow> (error + Time) option" where
  "nextNLoop s maxTime t n iterations =
     (if Before t maxTime \<and> iterations < DefaultMaxIterations * 60
      then (case findNextMatch s t maxTime of
              None \<Rightarrow> None
            | Some None \<Rightarrow> Some (Inl ErrNoNextRun)
            | Some (Some next) \<Rightarrow>
                if n - 1 \<le> 0 then Some (Inr next)
                else nextNLoop s maxTime (Add next 1) (n - 1) (iterations + 1))
      else Some (Inl ErrNoNextRun))"
  by pat_completeness auto
termination
  by (relation "measure (\<lambda>(s, maxTime, t, n, iterations).
                  nat (DefaultMaxIterations * 60 - iterations))") auto

definition NextN :: "Scheduler \<Rightarrow> Time \<Rightarrow> int \<Rightarrow> (error + Time) option" where
  "NextN s from n0 =
     (let n = (if n0 < 1 then 1 else n0);
          t = TruncateSecond (Add (In from (location s)) 1);
          maxTime = AddDate t DefaultSearchYears 0 0
      in nextNLoop s maxTime t n 0)"

definition Next :: "Scheduler \<Rightarrow> Time \<Rightarrow> (error + Time) option" where
  "Next s from = NextN s from 1"

function prevNLoop ::
  "Scheduler \<Rightarrow> Time \<Rightarrow> Time \<Rightarrow> int \<Rightarrow> int \<Rightarrow> (error + Time) option" where
  "prevNLoop s minTime t n iterations =
     (if After t minTime \<and> iterations < DefaultMaxIterations * 60
      then (case findPrevMatch s t minTime of
              None \<Rightarrow> None
            | Some None \<Rightarrow> Some (Inl ErrNoPreviousRun)
            | Some (Some prev) \<Rightarrow>
                if n - 1 \<le> 0 then Some (Inr prev)
                else prevNLoop s minTime (Add prev (- 1)) (n - 1) (iterations + 1))
      else Some (Inl ErrNoPreviousRun))"
  by pat_completeness auto
termination
  by (relation "measure (\<lambda>(s, minTime, t, n, iterations).
                  nat (DefaultMaxIterations * 60 - iterations))") auto

definition PreviousN :: "Scheduler \<Rightarrow> Time \<Rightarrow> int \<Rightarrow> (error + Time) option" where
  "PreviousN s from n0 =
     (let n = (if n0 < 1 then 1 else n0);
          t = TruncateSecond (Add (In from (location s)) (- 1));
          minTime = AddDate t (- DefaultSearchYears) 0 0
      in prevNLoop s minTime t n 0)"

definition Previous :: "Scheduler \<Rightarrow> Time \<Rightarrow> (error + Time) option" where
  "Previous s from = PreviousN s from 1"

text \<open>The batch operations: a nil slice is the empty list.\<close>

function nextTimesLoop ::
  "Scheduler \<Rightarrow> Time \<Rightarrow> int \<Rightarrow> int \<Rightarrow> Time list \<Rightarrow> (error + Time list) option" where
  "nextTimesLoop s t i n results =
     (if i < n
      then (case Next s t of
              None \<Rightarrow> None
            | Some (Inl err) \<Rightarrow>
                if results \<noteq> [] then Some (Inr results) else Some (Inl err)
            | Some (Inr next) \<Rightarrow> nextTimesLoop s next (i + 1) n (results @ [next]))
      else Some (Inr results))"
  by pat_completeness auto
termination
  by (relation "measure (\<lambda>(s, t, i, n, results). nat (n - i))") auto

definition NextNTimes :: "Scheduler \<Rightarrow> Time \<Rightarrow> int \<Rightarrow> (error + Time list) option" where
  "NextNTimes s from n = (if n \<le> 0 then Some (Inr []) else nextTimesLoop s from 0 n [])"

function prevTimesLoop ::
  "Scheduler \<Rightarrow> Time \<Rightarrow> int \<Rightarrow> int \<Rightarrow> Time list \<Rightarrow> (error + Time list) option" where
  "prevTimesLoop s t i n results =
     (if i < n
      then (case Previous s t of
              None \<Rightarrow> None
            | Some (Inl err) \<Rightarrow>
                if results \<noteq> [] then Some (Inr results) else Some (Inl err)
            | Some (Inr prev) \<Rightarrow> prevTimesLoop s prev (i + 1) n (results @ [prev]))
      else Some (Inr results))"
  by pat_completeness auto
termination
  by (relation "measure (\<lambda>(s, t, i, n, results). nat (n - i))") auto

definition PreviousNTimes :: "Scheduler \<Rightarrow> Time \<Rightarrow> int \<Rightarrow> (error + Time list) option" where
  "PreviousNTimes s from n = (if n \<le> 0 then Some (Inr []) else prevTimesLoop s from 0 n [])"

definition IsDue :: "Scheduler \<Rightarrow> Time \<Rightarrow> bool" where
  "IsDue s t0 =
     (let t = In t0 (location s)
      in Matches (expr s) (Time_Second t) (Time_Minute t) (Time_Hour t)
           (Time_Day t) (Time_Month t) (Time_Weekday t))"

declare nextNLoop.simps [simp del] prevNLoop.simps [simp del]
  nextTimesLoop.simps [simp del] prevTimesLoop.simps [simp del]

section \<open>Sample expressions, locations and instants\<close>

text \<open>The expression that \<open>0 0 L * *\<close> parses to (midnight on the last day of the month).\<close>

definition lastDayExpr :: Expression where
  "lastDayExpr =
     \<lparr>ERaw = ''0 0 L * *'', EType = StandardCron,
      Second = \<lparr>Type = FieldSecond, Values = {0}, Raw = ''0''\<rparr>,
      Minute = \<lparr>Type = FieldMinute, Values = {0}, Raw = ''0''\<rparr>,
      Hour = \<lparr>Type = FieldHour, Values = {0}, Raw = ''0''\<rparr>,
      DayOfMonth = \<lparr>Type = FieldDayOfMonth, Values = {32}, Raw = ''L''\<rparr>,
      Month = \<lparr>Type = FieldMonth, Values = {1..12}, Raw = ''*''\<rparr>,
      DayOfWeek = \<lparr>Type = FieldDayOfWeek, Values = {0..6}, Raw = ''*''\<rparr>,
      HasLastDayOfMonth = True, HasLastWeekday = False, HasNearestWeekday = False,
      HasNthDayOfWeek = False, HasLastDayOfWeek = False\<rparr>"

text \<open>The expression that \<open>0 0 15 * 1\<close> parses to (the 15th, or any Monday).\<close>

definition dayOrExpr :: Expression where
  "dayOrExpr =
     \<lparr>ERaw = ''0 0 15 * 1'', EType = StandardCron,
      Second = \<lparr>Type = FieldSecond, Values = {0}, Raw = ''0''\<rparr>,
      Minute = \<lparr>Type = FieldMinute, Values = {0}, Raw = ''0''\<rparr>,
      Hour = \<lparr>Type = FieldHour, Values = {0}, Raw = ''0''\<rparr>,
      DayOfMonth = \<lparr>Type = FieldDayOfMonth, Values = {15}, Raw = ''15''\<rparr>,
      Month = \<lparr>Type = FieldMonth, Values = {1..12}, Raw = ''*''\<rparr>,
      DayOfWeek = \<lparr>Type = FieldDayOfWeek, Values = {1}, Raw = ''1''\<rparr>,
      HasLastDayOfMonth = False, HasLastWeekday = False, HasNearestWeekday = False,
      HasNthDayOfWeek = False, HasLastDayOfWeek = False\<rparr>"

text \<open>
  The expression that \<open>0 0 1-30,L-2 * 1\<close> parses to: the days 1 to 30 and the code 34 of
  \<open>L-2\<close>, for which no flag is set.
\<close>

definition countedAllExpr :: Expression where
  "countedAllExpr =
     \<lparr>ERaw = ''0 0 1-30,L-2 * 1'', EType = StandardCron,
      Second = \<lparr>Type = FieldSecond, Values = {0}, Raw = ''0''\<rparr>,
      Minute = \<lparr>Type = FieldMinute, Values = {0}, Raw = ''0''\<rparr>,
      Hour = \<lparr>Type = FieldHour, Values = {0}, Raw = ''0''\<rparr>,
      DayOfMonth = \<lparr>Type = FieldDayOfMonth, Values = insert 34 {1..30},
                    Raw = ''1-30,L-2''\<rparr>,
      Month = \<lparr>Type = FieldMonth, Values = {1..12}, Raw = ''*''\<rparr>,
      DayOfWeek = \<lparr>Type = FieldDayOfWeek, Values = {1}, Raw = ''1''\<rparr>,
      HasLastDayOfMonth = False, HasLastWeekday = False, HasNearestWeekday = False,
      HasNthDayOfWeek = False, HasLastDayOfWeek = False\<rparr>"

text \<open>
  The expression that \<open>0 0 L-1 * *\<close> and \<open>0 0 LW * *\<close> parse to, up to the token's text.
\<close>

definition code33Expr :: "string \<Rightarrow> Expression" where
  "code33Expr token =
     \<lparr>ERaw = ''0 0 '' @ token @ '' * *'', EType = StandardCron,
      Second = \<lparr>Type = FieldSecond, Values = {0}, Raw = ''0''\<rparr>,
      Minute = \<lparr>Type = FieldMinute, Values = {0}, Raw = ''0''\<rparr>,
      Hour = \<lparr>Type = FieldHour, Values = {0}, Raw = ''0''\<rparr>,
      DayOfMonth = \<lparr>Type = FieldDayOfMonth, Values = {33}, Raw = token\<rparr>,
      Month = \<lparr>Type = FieldMonth, Values = {1..12}, Raw = ''*''\<rparr>,
      DayOfWeek = \<lparr>Type = FieldDayOfWeek, Values = {0..6}, Raw = ''*''\<rparr>,
      HasLastDayOfMonth = False, HasLastWeekday = True, HasNearestWeekday = False,
      HasNthDayOfWeek = False, HasLastDayOfWeek = False\<rparr>"


text \<open>
  An expression with the given second, minute and hour fields whose day-of-month, month
  and day-of-week fields are \<open>*\<close>.
\<close>

definition everyDayAt ::
  "string \<Rightarrow> ExpressionType \<Rightarrow> Field \<Rightarrow> Field \<Rightarrow> Field \<Rightarrow> Expression" where
  "everyDayAt raw ty sec mi hr =
     \<lparr>ERaw = raw, EType = ty, Second = sec, Minute = mi, Hour = hr,
      DayOfMonth = \<lparr>Type = FieldDayOfMonth, Values = {1..31}, Raw = ''*''\<rparr>,
      Month = \<lparr>Type = FieldMonth, Values = {1..12}, Raw = ''*''\<rparr>,
      DayOfWeek = \<lparr>Type = FieldDayOfWeek, Values = {0..6}, Raw = ''*''\<rparr>,
      HasLastDayOfMonth = False, HasLastWeekday = False, HasNearestWeekday = False,
      HasNthDayOfWeek = False, HasLastDayOfWeek = False\<rparr>"

text \<open>The expressions that \<open>*/5 * * * *\<close>, \<open>59 3 * * *\<close> and \<open>0 2 * * *\<close> parse to.\<close>

definition everyFiveMinutes :: Expression where
  "everyFiveMinutes = everyDayAt ''*/5 * * * *'' StandardCron
     \<lparr>Type = FieldSecond, Values = {0}, Raw = ''0''\<rparr>
     \<lparr>Type = FieldMinute, Values = {0, 5, 10, 15, 20, 25, 30, 35, 40, 45, 50, 55},
       Raw = ''*/5''\<rparr>
     \<lparr>Type = FieldHour, Values = {0..23}, Raw = ''*''\<rparr>"

definition dailyAt0359 :: Expression where
  "dailyAt0359 = everyDayAt ''59 3 * * *'' StandardCron
     \<lparr>Type = FieldSecond, Values = {0}, Raw = ''0''\<rparr>
     \<lparr>Type = FieldMinute, Values = {59}, Raw = ''59''\<rparr>
     \<lparr>Type = FieldHour, Values = {3}, Raw = ''3''\<rparr>"

definition dailyAt2 :: Expression where
  "dailyAt2 = everyDayAt ''0 2 * * *'' StandardCron
     \<lparr>Type = FieldSecond, Values = {0}, Raw = ''0''\<rparr>
     \<lparr>Type = FieldMinute, Values = {0}, Raw = ''0''\<rparr>
     \<lparr>Type = FieldHour, Values = {2}, Raw = ''2''\<rparr>"

text \<open>
  Two locations with daylight saving time, as the time zone database has them for 2024.
  America/New_York: UTC-5, UTC-4 from 2024-03-10 07:00:00 UTC (02:00 local becomes 03:00),
  UTC-5 again from 2024-11-03 06:00:00 UTC. Europe/Berlin: UTC+1, UTC+2 from 2024-03-31
  01:00:00 UTC (02:00 local becomes 03:00), UTC+1 again from 2024-10-27 01:00:00 UTC.
\<close>

definition newYork :: Location where
  "newYork = \<lparr>zoneInit = - 18000,
               zoneTrans = [(1710054000, - 14400), (1730613600, - 18000)]\<rparr>"

definition berlin :: Location where
  "berlin = \<lparr>zoneInit = 3600,
              zoneTrans = [(1711846800, 7200), (1729990800, 3600)]\<rparr>"

text \<open>
  What the loops of \<open>findNextMatch\<close> and \<open>findPrevMatch\<close> have checked of a cursor when
  they return it.
\<close>

definition fieldsMatch :: "Scheduler \<Rightarrow> Time \<Rightarrow> bool" where
  "fieldsMatch s r =
     (Contains (Month (expr s)) (Time_Month r) \<and> matchesDay s r = Some True
      \<and> Contains (Hour (expr s)) (Time_Hour r) \<and> Contains (Minute (expr s)) (Time_Minute r)
      \<and> Contains (Second (expr s)) (Time_Second r))"

section \<open>Properties of the field parser\<close>

text \<open>The wrap-around is the identity on the values of Go's \<open>int\<close>.\<close>

lemma wrap64_id: "- (2 ^ 63) \<le> x \<Longrightarrow> x < 2 ^ 63 \<Longrightarrow> wrap64 x = x"
  unfolding wrap64_def by (simp add: mod_pos_pos_trivial)

text \<open>
  On the arguments that the parser passes, \<open>addRange\<close> is the Go loop as it stands: the
  conditions that the definition adds hold there, and keep holding from one iteration to
  the next.
\<close>

lemma addRange_loop:
  assumes "0 < step" "step \<le> maxInt" "minInt \<le> i" "e \<le> 59"
  shows "addRange vals i e step =
     (if i \<le> e then addRange (insert i vals) (wrap64 (i + step)) e step else vals)"
    and "minInt \<le> wrap64 (i + step)"
proof -
  show "addRange vals i e step =
     (if i \<le> e then addRange (insert i vals) (wrap64 (i + step)) e step else vals)"
    by (subst addRange.simps) (use assms in auto)
  have "0 \<le> (i + step + 2 ^ 63) mod 2 ^ 64" by simp
  then show "minInt \<le> wrap64 (i + step)"
    unfolding wrap64_def minInt_def by linarith
qed

text \<open>
  While no addition can overflow, \<open>addRange\<close> adds exactly the values from the start up
  to the end that lie a multiple of the step above the start.
\<close>

lemma addRange_no_wrap:
  assumes "0 < step" "step \<le> maxInt" "e + step \<le> maxInt" "minInt \<le> i" "e < 2 ^ 61"
  shows "addRange vals i e step = vals \<union> {v. i \<le> v \<and> v \<le> e \<and> (v - i) mod step = 0}"
  using assms
proof (induction vals i e step rule: addRange.induct)
  case (1 vals i e step)
  show ?case
  proof (cases "i \<le> e")
    case False
    then show ?thesis by (subst addRange.simps) auto
  next
    case True
    have rng: "- (2 ^ 63) \<le> i + step" "i + step < 2 ^ 63"
      using "1.prems" True by (auto simp: minInt_def maxInt_def)
    have w: "wrap64 (i + step) = i + step" by (rule wrap64_id [OF rng])
    have guard: "i \<le> e \<and> 0 < step \<and> step \<le> maxInt \<and> minInt \<le> i \<and> e < 2 ^ 61"
      using "1.prems" True by (auto simp: minInt_def maxInt_def)
    have IH: "addRange (insert i vals) (i + step) e step
              = insert i vals \<union> {v. i + step \<le> v \<and> v \<le> e \<and> (v - (i + step)) mod step = 0}"
      using "1.IH" [OF guard] "1.prems" w by (simp add: minInt_def)
    have set_eq: "{v. i \<le> v \<and> v \<le> e \<and> (v - i) mod step = 0}
          = insert i {v. i + step \<le> v \<and> v \<le> e \<and> (v - (i + step)) mod step = 0}"
    proof (rule set_eqI)
      fix v
      have m: "(v - (i + step)) mod step = (v - i) mod step"
        by (metis diff_diff_eq minus_mod_self2)
      have "(v - i) mod step = 0 \<Longrightarrow> i \<le> v \<Longrightarrow> v \<noteq> i \<Longrightarrow> i + step \<le> v"
      proof -
        assume a: "(v - i) mod step = 0" "i \<le> v" "v \<noteq> i"
        then have "step dvd (v - i)" "0 < v - i" by auto
        then have "step \<le> v - i" using zdvd_imp_le by blast
        then show ?thesis by simp
      qed
      then show "v \<in> {v. i \<le> v \<and> v \<le> e \<and> (v - i) mod step = 0}
        \<longleftrightarrow> v \<in> insert i {v. i + step \<le> v \<and> v \<le> e \<and> (v - (i + step)) mod step = 0}"
        using True "1.prems"(1) m by auto
    qed
    show ?thesis
      by (subst addRange.simps) (use guard w IH set_eq in auto)
  qed
qed

lemma SplitN2_append: "c \<notin> set a \<Longrightarrow> SplitN2 (a @ c # b) c = [a, b]"
proof -
  assume a: "c \<notin> set a"
  then have t: "takeWhile (\<lambda>x. x \<noteq> c) (a @ c # b) = a"
    by (induction a) auto
  from a have d: "dropWhile (\<lambda>x. x \<noteq> c) (a @ c # b) = c # b"
    by (induction a) auto
  show ?thesis unfolding SplitN2_def using t d by simp
qed

lemma boundMax_small: "boundMax ft < 2 ^ 61" "boundMin ft \<le> boundMax ft" "minInt \<le> boundMin ft"
  "0 \<le> boundMin ft" "boundMax ft \<le> 59"
  by (cases ft; simp add: minInt_def)+

text \<open>
  Step tokens whose step cannot overflow the cursor (the step plus the field's maximum
  fits 64 bits) are encoded as the set they denote: every step above the start, up to the
  field's maximum (for \<open>*/n\<close> and \<open>b/n\<close>) or up to the range's end (for \<open>a-b/n\<close>).
\<close>

lemma parseStep_star_no_overflow:
  assumes "Atoi n = Some step" "0 < step" "boundMax ft + step \<le> maxInt"
  shows "parseStep ft vals (''*/'' @ n)
     = Inr (vals \<union> {v. boundMin ft \<le> v \<and> v \<le> boundMax ft \<and> (v - boundMin ft) mod step = 0})"
proof -
  have sp: "SplitN2 (''*/'' @ n) (CHR ''/'') = [''*'', n]"
    using SplitN2_append [of "CHR ''/''" "''*''" n] by simp
  have le: "step \<le> maxInt" using assms(3) boundMax_small(2,4) [of ft] by linarith
  show ?thesis unfolding parseStep_def sp
    using assms le boundMax_small [of ft]
    by (simp add: addRange_no_wrap)
qed

lemma parseStep_single_no_overflow:
  assumes "CHR ''/'' \<notin> set b" "CHR ''-'' \<notin> set b" "b \<noteq> ''*''"
    and "parseValue ft b = Inr start" "boundMin ft \<le> start" "start \<le> boundMax ft"
    and "Atoi n = Some step" "0 < step" "boundMax ft + step \<le> maxInt"
  shows "parseStep ft vals (b @ ''/'' @ n)
     = Inr (vals \<union> {v. start \<le> v \<and> v \<le> boundMax ft \<and> (v - start) mod step = 0})"
proof -
  have sp: "SplitN2 (b @ ''/'' @ n) (CHR ''/'') = [b, n]"
    using SplitN2_append [OF assms(1), of n] by simp
  have le: "step \<le> maxInt" using assms(9) boundMax_small(2,4) [of ft] by linarith
  have mi: "minInt \<le> start" using assms(5) boundMax_small(3) [of ft] by linarith
  show ?thesis unfolding parseStep_def sp
    using assms le mi boundMax_small [of ft]
    by (simp add: addRange_no_wrap ContainsChar_def validateValue_def)
qed

lemma parseStep_range_no_overflow:
  assumes "CHR ''/'' \<notin> set a" "CHR ''/'' \<notin> set b" "CHR ''-'' \<notin> set a"
    and "parseValue ft a = Inr x" "parseValue ft b = Inr y"
    and "boundMin ft \<le> x" "x \<le> y" "y \<le> boundMax ft"
    and "Atoi n = Some step" "0 < step" "boundMax ft + step \<le> maxInt"
  shows "parseStep ft vals (a @ ''-'' @ b @ ''/'' @ n)
     = Inr (vals \<union> {v. x \<le> v \<and> v \<le> y \<and> (v - x) mod step = 0})"
proof -
  have "CHR ''/'' \<notin> set (a @ ''-'' @ b)" using assms(1,2) by simp
  from SplitN2_append [OF this, of n]
  have sp: "SplitN2 (a @ ''-'' @ b @ ''/'' @ n) (CHR ''/'') = [a @ ''-'' @ b, n]" by simp
  have sp2: "SplitN2 (a @ CHR ''-'' # b) (CHR ''-'') = [a, b]"
    by (rule SplitN2_append [OF assms(3)])
  have ne: "a @ ''-'' @ b \<noteq> ''*''" by (cases a) auto
  have le: "step \<le> maxInt" using assms(11) boundMax_small(2,4) [of ft] by linarith
  have mi: "minInt \<le> x" using assms(6) boundMax_small(3) [of ft] by linarith
  have pb: "parseBounds ft a b = Inr (x, y)"
    unfolding parseBounds_def validateValue_def using assms by simp
  have ys: "y + step \<le> maxInt" "y < 2 ^ 61"
    using assms(8,11) boundMax_small(1) [of ft] by linarith+
  show ?thesis unfolding parseStep_def sp
    using assms(9,10) ne le mi ys
    by (simp add: ContainsChar_def sp2 pb addRange_no_wrap)
qed

text \<open>
  Claim C5 says that the encoded set of a field token is the set the token denotes:
  \<open>*/15\<close> on minutes is \<open>{0, 15, 30, 45}\<close>, a step token \<open>b/n\<close> gives \<open>b, b + n, \<dots>\<close> up
  to the field's maximum, and \<open>a-b/n\<close> gives \<open>a, a + n, \<dots>\<close> up to \<open>b\<close>. The examples of
  the claim come out as stated, but the code does otherwise for a step so large that the
  loop's \<open>i += step\<close> overflows: the minute token \<open>3/9223372036854775807\<close> denotes \<open>{3}\<close>,
  and the code encodes it as \<open>{3, 2 - 2\<^sup>6\<^sup>3, 1, - 2\<^sup>6\<^sup>3, - 1}\<close>, so that minute 1 is
  contained too.
\<close>

theorem step_overflow_adds_values:
  "FieldParser_Parse FieldMinute ''*/15''
     = Inr \<lparr>Type = FieldMinute, Values = {0, 15, 30, 45}, Raw = ''*/15''\<rparr>
   \<and> FieldParser_Parse FieldMinute ''10/5''
     = Inr \<lparr>Type = FieldMinute, Values = {10, 15, 20, 25, 30, 35, 40, 45, 50, 55},
            Raw = ''10/5''\<rparr>
   \<and> FieldParser_Parse FieldMinute ''10-30/7''
     = Inr \<lparr>Type = FieldMinute, Values = {10, 17, 24}, Raw = ''10-30/7''\<rparr>
   \<and> Atoi ''9223372036854775807'' = Some 9223372036854775807
   \<and> {v. 3 \<le> v \<and> v \<le> boundMax FieldMinute \<and> (v - 3) mod 9223372036854775807 = 0} = {3}
   \<and> FieldParser_Parse FieldMinute ''3/9223372036854775807''
     = Inr \<lparr>Type = FieldMinute, Values = {3, 2 - 2 ^ 63, 1, - (2 ^ 63), - 1},
            Raw = ''3/9223372036854775807''\<rparr>
   \<and> Contains \<lparr>Type = FieldMinute, Values = {3, 2 - 2 ^ 63, 1, - (2 ^ 63), - 1},
                Raw = ''3/9223372036854775807''\<rparr> 1"
proof -
  have "FieldParser_Parse FieldMinute ''*/15''
     = Inr \<lparr>Type = FieldMinute, Values = {0, 15, 30, 45}, Raw = ''*/15''\<rparr>"
    by code_simp
  moreover have "FieldParser_Parse FieldMinute ''10/5''
     = Inr \<lparr>Type = FieldMinute, Values = {10, 15, 20, 25, 30, 35, 40, 45, 50, 55},
            Raw = ''10/5''\<rparr>"
    by code_simp
  moreover have "FieldParser_Parse FieldMinute ''10-30/7''
     = Inr \<lparr>Type = FieldMinute, Values = {10, 17, 24}, Raw = ''10-30/7''\<rparr>"
    by code_simp
  moreover have "Atoi ''9223372036854775807'' = Some 9223372036854775807"
    by code_simp
  moreover have "{v. 3 \<le> v \<and> v \<le> boundMax FieldMinute
                    \<and> (v - 3) mod 9223372036854775807 = 0} = {3::int}"
  proof -
    have "v = 3" if "3 \<le> v" "v \<le> 59" "9223372036854775807 dvd v - 3" for v :: int
    proof (rule ccontr)
      assume "v \<noteq> 3"
      with that(1) have "0 < v - 3" by simp
      with that(3) have "9223372036854775807 \<le> v - 3" by (rule zdvd_imp_le)
      with that(2) show False by simp
    qed
    then show ?thesis by auto
  qed
  moreover have "FieldParser_Parse FieldMinute ''3/9223372036854775807''
     = Inr \<lparr>Type = FieldMinute, Values = {3, 2 - 2 ^ 63, 1, - (2 ^ 63), - 1},
            Raw = ''3/9223372036854775807''\<rparr>"
    by code_simp
  moreover have "Contains \<lparr>Type = FieldMinute, Values = {3, 2 - 2 ^ 63, 1, - (2 ^ 63), - 1},
                Raw = ''3/9223372036854775807''\<rparr> 1"
    by (simp add: Contains_def)
  ultimately show ?thesis by blast
qed

section \<open>Properties of the expression parser\<close>



lemma Parse_lastDayExpr: "Parse ''0 0 L * *'' = Inr lastDayExpr"
  by code_simp



section \<open>Properties of the scheduler\<close>

text \<open>
  Every instant that a search returns has passed the checks of the search, and for an
  expression without special day handling these are the checks of \<open>Matches\<close>.
\<close>

lemma findNextLoop_sound:
  assumes "findNextLoop s m t = Some (Some r)"
  shows "fieldsMatch s r"
proof -
  have "\<forall>r. y = Some r \<longrightarrow> fieldsMatch s' r" if "findNextLoop s' m' t' = Some y" for s' m' t' y
  proof (rule findNextLoop.raw_induct
      [where P = "\<lambda>s' m' t' y. \<forall>r. y = Some r \<longrightarrow> fieldsMatch s' r", OF _ that], goal_cases)
    case (1 f s' m' t' y)
    then show ?case
      by (auto simp: fieldsMatch_def split: if_splits Option.bind_splits)
  qed
  with assms show ?thesis by blast
qed

lemma findPrevMatch_sound:
  assumes "findPrevMatch s t m = Some (Some r)"
  shows "fieldsMatch s r"
proof -
  have "\<forall>r. y = Some r \<longrightarrow> fieldsMatch s' r" if "findPrevMatch s' t' m' = Some y" for s' m' t' y
  proof (rule findPrevMatch.raw_induct
      [where P = "\<lambda>s' t' m' y. \<forall>r. y = Some r \<longrightarrow> fieldsMatch s' r", OF _ that], goal_cases)
    case (1 f s' t' m' y)
    then show ?case
      by (auto simp: fieldsMatch_def split: if_splits Option.bind_splits)
  qed
  with assms show ?thesis by blast
qed

lemma nextNLoop_sound:
  "nextNLoop s m t n k = Some (Inr r) \<Longrightarrow> fieldsMatch s r"
proof (induction s m t n k rule: nextNLoop.induct)
  case (1 s maxTime t n iterations)
  from "1.prems" show ?case
    apply (subst (asm) nextNLoop.simps)
    apply (auto split: if_splits option.splits simp: findNextMatch_def Let_def
        dest: findNextLoop_sound intro: "1.IH")
    done
qed

lemma prevNLoop_sound:
  "prevNLoop s m t n k = Some (Inr r) \<Longrightarrow> fieldsMatch s r"
proof (induction s m t n k rule: prevNLoop.induct)
  case (1 s minTime t n iterations)
  from "1.prems" show ?case
    apply (subst (asm) prevNLoop.simps)
    apply (auto split: if_splits option.splits dest: findPrevMatch_sound intro: "1.IH")
    done
qed

lemma fieldsMatch_Matches:
  assumes "fieldsMatch s r" "\<not> HasSpecialDayHandling (expr s)"
  shows "Matches (expr s) (Time_Second r) (Time_Minute r) (Time_Hour r)
           (Time_Day r) (Time_Month r) (Time_Weekday r)"
  using assms unfolding fieldsMatch_def Matches_def matchesDay_def
  by (auto simp: Let_def split: if_splits)

lemma search_result_Matches_without_special_days:
  assumes "\<not> HasSpecialDayHandling (expr s)"
    and "Next s from = Some (Inr r) \<or> Previous s from = Some (Inr r)"
  shows "Matches (expr s) (Time_Second r) (Time_Minute r) (Time_Hour r)
           (Time_Day r) (Time_Month r) (Time_Weekday r)"
proof -
  from assms(2) have "fieldsMatch s r"
    unfolding Next_def NextN_def Previous_def PreviousN_def
    by (auto simp: Let_def dest: nextNLoop_sound prevNLoop_sound)
  then show ?thesis using assms(1) by (rule fieldsMatch_Matches)
qed

text \<open>
  Claim C10. Called with a count \<open>n \<le> 0\<close>, \<open>NextNTimes\<close> and \<open>PreviousNTimes\<close> return the
  empty (nil) result and no error, whatever the scheduler and the instant are: no search
  is made, so the calls return even where a search would not.
\<close>

theorem batch_nonpositive_count:
  "n \<le> 0 \<Longrightarrow> NextNTimes s from n = Some (Inr []) \<and> PreviousNTimes s from n = Some (Inr [])"
  by (simp add: NextNTimes_def PreviousNTimes_def)

theorem batch_nonpositive_count_witness:
  "(- 3 :: int) \<le> 0
   \<and> NextNTimes \<lparr>expr = lastDayExpr, location = UTC\<rparr>
        \<lparr>unixSec = 1706745600, nanos = 0, tloc = UTC\<rparr> (- 3) = Some (Inr [])
   \<and> PreviousNTimes \<lparr>expr = lastDayExpr, location = UTC\<rparr>
        \<lparr>unixSec = 1706745600, nanos = 0, tloc = UTC\<rparr> (- 3) = Some (Inr [])"
  using batch_nonpositive_count [of "- 3" "\<lparr>expr = lastDayExpr, location = UTC\<rparr>"
      "\<lparr>unixSec = 1706745600, nanos = 0, tloc = UTC\<rparr>"]
  by simp

text \<open>
  Claim C1 says that the decomposition of every instant returned by \<open>Next\<close> or \<open>Previous\<close>
  satisfies \<open>Matches\<close>, also for expressions whose day field holds only a special token.
  The code does otherwise: for \<open>0 0 L * *\<close> the scheduler (in UTC), asked for the run
  after 2024-02-28 23:59:59 and for the run before 2024-02-29 00:00:01, returns midnight
  of 29 February 2024, a Thursday, and \<open>Matches\<close> rejects that instant's decomposition
  \<open>(0, 0, 0, 29, 2, 4)\<close>. The search asks \<open>matchesDay\<close>, which resolves the special
  tokens; \<open>Matches\<close> never does.
\<close>

theorem Next_result_rejected_by_Matches:
  "Parse ''0 0 L * *'' = Inr lastDayExpr
   \<and> Next \<lparr>expr = lastDayExpr, location = UTC\<rparr>
        \<lparr>unixSec = 1709164799, nanos = 0, tloc = UTC\<rparr>
      = Some (Inr \<lparr>unixSec = 1709164800, nanos = 0, tloc = UTC\<rparr>)
   \<and> Previous \<lparr>expr = lastDayExpr, location = UTC\<rparr>
        \<lparr>unixSec = 1709164801, nanos = 0, tloc = UTC\<rparr>
      = Some (Inr \<lparr>unixSec = 1709164800, nanos = 0, tloc = UTC\<rparr>)
   \<and> \<lparr>unixSec = 1709164800, nanos = 0, tloc = UTC\<rparr> = Date 2024 2 29 0 0 0 0 UTC
   \<and> Time_Second (Date 2024 2 29 0 0 0 0 UTC) = 0
   \<and> Time_Minute (Date 2024 2 29 0 0 0 0 UTC) = 0
   \<and> Time_Hour (Date 2024 2 29 0 0 0 0 UTC) = 0
   \<and> Time_Day (Date 2024 2 29 0 0 0 0 UTC) = 29
   \<and> Time_Month (Date 2024 2 29 0 0 0 0 UTC) = 2
   \<and> Time_Weekday (Date 2024 2 29 0 0 0 0 UTC) = 4
   \<and> \<not> Matches lastDayExpr 0 0 0 29 2 4"
proof -
  have "Next \<lparr>expr = lastDayExpr, location = UTC\<rparr>
          \<lparr>unixSec = 1709164799, nanos = 0, tloc = UTC\<rparr>
        = Some (Inr \<lparr>unixSec = 1709164800, nanos = 0, tloc = UTC\<rparr>)"
    by code_simp
  moreover have "Previous \<lparr>expr = lastDayExpr, location = UTC\<rparr>
          \<lparr>unixSec = 1709164801, nanos = 0, tloc = UTC\<rparr>
        = Some (Inr \<lparr>unixSec = 1709164800, nanos = 0, tloc = UTC\<rparr>)"
    by code_simp
  moreover have "\<lparr>unixSec = 1709164800, nanos = 0, tloc = UTC\<rparr> = Date 2024 2 29 0 0 0 0 UTC"
    by code_simp
  moreover have "Time_Second (Date 2024 2 29 0 0 0 0 UTC) = 0
     \<and> Time_Minute (Date 2024 2 29 0 0 0 0 UTC) = 0
     \<and> Time_Hour (Date 2024 2 29 0 0 0 0 UTC) = 0
     \<and> Time_Day (Date 2024 2 29 0 0 0 0 UTC) = 29
     \<and> Time_Month (Date 2024 2 29 0 0 0 0 UTC) = 2
     \<and> Time_Weekday (Date 2024 2 29 0 0 0 0 UTC) = 4"
    by code_simp
  moreover have "\<not> Matches lastDayExpr 0 0 0 29 2 4"
    by code_simp
  ultimately show ?thesis using Parse_lastDayExpr by blast
qed

text \<open>
  Claim C2 says that \<open>Matches\<close> hands an expression with a special day flag over to the
  special-day resolution, so that for \<open>L\<close> it holds exactly on the last day of the month,
  and that \<open>IsDue\<close> inherits this. The code does otherwise: \<open>Matches\<close> tests plain
  membership only. For \<open>0 0 L * *\<close>, whose flag is set, it holds exactly when the day
  argument is the code 32, so on no calendar day; on the last day of February 2024 (the
  29th) \<open>Matches\<close> and \<open>IsDue\<close> are false, while the scheduler's own \<open>matchesDay\<close>
  accepts that day.
\<close>

theorem Matches_ignores_special_days:
  "Parse ''0 0 L * *'' = Inr lastDayExpr
   \<and> HasSpecialDayHandling lastDayExpr
   \<and> Matches lastDayExpr sec mi h day mo wd
      = (sec = 0 \<and> mi = 0 \<and> h = 0 \<and> 1 \<le> mo \<and> mo \<le> 12 \<and> day = 32)
   \<and> lastDayOfMonth \<lparr>expr = lastDayExpr, location = UTC\<rparr> 2024 2 = 29
   \<and> \<not> IsDue \<lparr>expr = lastDayExpr, location = UTC\<rparr> (Date 2024 2 29 0 0 0 0 UTC)
   \<and> matchesDay \<lparr>expr = lastDayExpr, location = UTC\<rparr> (Date 2024 2 29 0 0 0 0 UTC)
      = Some True"
proof -
  have "Matches lastDayExpr sec mi h day mo wd
        = (sec = 0 \<and> mi = 0 \<and> h = 0 \<and> 1 \<le> mo \<and> mo \<le> 12 \<and> day = 32)"
    by (auto simp: Matches_def lastDayExpr_def Contains_def IsAll_def)
  moreover have "HasSpecialDayHandling lastDayExpr
     \<and> lastDayOfMonth \<lparr>expr = lastDayExpr, location = UTC\<rparr> 2024 2 = 29
     \<and> \<not> IsDue \<lparr>expr = lastDayExpr, location = UTC\<rparr> (Date 2024 2 29 0 0 0 0 UTC)
     \<and> matchesDay \<lparr>expr = lastDayExpr, location = UTC\<rparr> (Date 2024 2 29 0 0 0 0 UTC)
        = Some True"
    by code_simp
  ultimately show ?thesis using Parse_lastDayExpr by blast
qed

section \<open>Properties of day matching\<close>

lemma Parse_dayOrExpr: "Parse ''0 0 15 * 1'' = Inr dayOrExpr"
  by code_simp

lemma Parse_countedAllExpr: "Parse ''0 0 1-30,L-2 * 1'' = Inr countedAllExpr"
  by code_simp

text \<open>
  For a field that holds natural values only, \<open>IsAll\<close> says that it holds all of them;
  for two such day fields \<open>Matches\<close> follows the OR policy.
\<close>

lemma IsAll_natural:
  assumes "Values f \<subseteq> {boundMin (Type f)..boundMax (Type f)}"
  shows "IsAll f \<longleftrightarrow> {boundMin (Type f)..boundMax (Type f)} \<subseteq> Values f"
proof -
  let ?D = "{boundMin (Type f)..boundMax (Type f)}"
  have le: "boundMin (Type f) \<le> boundMax (Type f) + 1" by (cases "Type f") auto
  have c: "int (card ?D) = boundMax (Type f) - boundMin (Type f) + 1"
    using le by simp
  have fin: "finite ?D" by simp
  show ?thesis
  proof
    assume "IsAll f"
    then have "card (Values f) = card ?D" using c unfolding IsAll_def by linarith
    with assms fin have "Values f = ?D" by (simp add: card_subset_eq)
    then show "?D \<subseteq> Values f" by simp
  next
    assume "?D \<subseteq> Values f"
    with assms have "Values f = ?D" by auto
    then show "IsAll f" unfolding IsAll_def using c by simp
  qed
qed

lemma Matches_day_policy:
  assumes "Type (DayOfMonth e) = FieldDayOfMonth" "Type (DayOfWeek e) = FieldDayOfWeek"
    and "Values (DayOfMonth e) \<subseteq> {1..31}" "Values (DayOfWeek e) \<subseteq> {0..6}"
    and "Contains (Second e) sec" "Contains (Minute e) mi" "Contains (Hour e) h"
        "Contains (Month e) mo"
  shows "Matches e sec mi h day mo wd =
     (if {1..31} \<subseteq> Values (DayOfMonth e) \<and> {0..6} \<subseteq> Values (DayOfWeek e) then True
      else if {1..31} \<subseteq> Values (DayOfMonth e) then wd \<in> Values (DayOfWeek e)
      else if {0..6} \<subseteq> Values (DayOfWeek e) then day \<in> Values (DayOfMonth e)
      else day \<in> Values (DayOfMonth e) \<or> wd \<in> Values (DayOfWeek e))"
proof -
  have a: "IsAll (DayOfMonth e) \<longleftrightarrow> {1..31} \<subseteq> Values (DayOfMonth e)"
    using IsAll_natural [of "DayOfMonth e"] assms by simp
  have b: "IsAll (DayOfWeek e) \<longleftrightarrow> {0..6} \<subseteq> Values (DayOfWeek e)"
    using IsAll_natural [of "DayOfWeek e"] assms by simp
  show ?thesis using assms(5-8) unfolding Matches_def a b Contains_def
    by (simp add: Let_def)
qed

text \<open>
  Claim C4 states the OR policy of the day fields for every expression with no special
  day flag: a day field that covers all its natural values does not constrain, and where
  neither does, the day matches when the day of the month or the weekday is contained.
  The claim's example comes out as stated: \<open>0 0 15 * 1\<close> is due at midnight of 2024-06-15
  (a Saturday) and of 2024-06-17 (a Monday), and not of 2024-06-18. The code does
  otherwise where a field holds an extension code without a flag: \<open>IsAll\<close> counts the
  entries of the map. In \<open>0 0 1-30,L-2 * 1\<close> no flag is set, the day-of-month field does
  not contain 31, so neither field covers its natural values, and the 15th is contained;
  but the field has 31 entries, passes for "all", and Tuesday 2024-10-15 does not match.
\<close>

theorem day_policy_counts_extension_codes:
  "Parse ''0 0 15 * 1'' = Inr dayOrExpr
   \<and> IsDue \<lparr>expr = dayOrExpr, location = UTC\<rparr> (Date 2024 6 15 0 0 0 0 UTC)
   \<and> Time_Weekday (Date 2024 6 15 0 0 0 0 UTC) = 6
   \<and> IsDue \<lparr>expr = dayOrExpr, location = UTC\<rparr> (Date 2024 6 17 0 0 0 0 UTC)
   \<and> Time_Weekday (Date 2024 6 17 0 0 0 0 UTC) = 1
   \<and> \<not> IsDue \<lparr>expr = dayOrExpr, location = UTC\<rparr> (Date 2024 6 18 0 0 0 0 UTC)
   \<and> Parse ''0 0 1-30,L-2 * 1'' = Inr countedAllExpr
   \<and> \<not> HasSpecialDayHandling countedAllExpr
   \<and> Contains (DayOfMonth countedAllExpr) 15
   \<and> \<not> Contains (DayOfMonth countedAllExpr) 31
   \<and> \<not> Contains (DayOfWeek countedAllExpr) 0
   \<and> Time_Day (Date 2024 10 15 0 0 0 0 UTC) = 15
   \<and> Time_Weekday (Date 2024 10 15 0 0 0 0 UTC) = 2
   \<and> \<not> Matches countedAllExpr 0 0 0 15 10 2
   \<and> \<not> IsDue \<lparr>expr = countedAllExpr, location = UTC\<rparr> (Date 2024 10 15 0 0 0 0 UTC)
   \<and> matchesDay \<lparr>expr = countedAllExpr, location = UTC\<rparr> (Date 2024 10 15 0 0 0 0 UTC)
      = Some False"
proof -
  have "IsDue \<lparr>expr = dayOrExpr, location = UTC\<rparr> (Date 2024 6 15 0 0 0 0 UTC)
     \<and> Time_Weekday (Date 2024 6 15 0 0 0 0 UTC) = 6
     \<and> IsDue \<lparr>expr = dayOrExpr, location = UTC\<rparr> (Date 2024 6 17 0 0 0 0 UTC)
     \<and> Time_Weekday (Date 2024 6 17 0 0 0 0 UTC) = 1
     \<and> \<not> IsDue \<lparr>expr = dayOrExpr, location = UTC\<rparr> (Date 2024 6 18 0 0 0 0 UTC)"
    by code_simp
  moreover have "\<not> HasSpecialDayHandling countedAllExpr
     \<and> Contains (DayOfMonth countedAllExpr) 15
     \<and> \<not> Contains (DayOfMonth countedAllExpr) 31
     \<and> \<not> Contains (DayOfWeek countedAllExpr) 0
     \<and> Time_Day (Date 2024 10 15 0 0 0 0 UTC) = 15
     \<and> Time_Weekday (Date 2024 10 15 0 0 0 0 UTC) = 2
     \<and> \<not> Matches countedAllExpr 0 0 0 15 10 2
     \<and> \<not> IsDue \<lparr>expr = countedAllExpr, location = UTC\<rparr> (Date 2024 10 15 0 0 0 0 UTC)
     \<and> matchesDay \<lparr>expr = countedAllExpr, location = UTC\<rparr> (Date 2024 10 15 0 0 0 0 UTC)
        = Some False"
    by code_simp
  ultimately show ?thesis using Parse_dayOrExpr Parse_countedAllExpr by blast
qed

text \<open>
  Claim C6. The day-of-month tokens \<open>L-1\<close> and \<open>LW\<close> both parse, and both to the value
  set \<open>{33}\<close>, so the fields differ in the token's text only. An expression whose
  day-of-month field holds 33 gets the last-weekday flag, and its special-day resolution
  accepts a day that is the last weekday of the month as well as the day before the last
  day of the month. For the expressions \<open>0 0 L-1 * *\<close> and \<open>0 0 LW * *\<close> the resolution
  accepts exactly these days (the code 33 itself is no day of a month).
\<close>

theorem Lminus1_and_LW_share_code:
  "FieldParser_Parse FieldDayOfMonth ''L-1''
     = Inr \<lparr>Type = FieldDayOfMonth, Values = {33}, Raw = ''L-1''\<rparr>
   \<and> FieldParser_Parse FieldDayOfMonth ''LW''
     = Inr \<lparr>Type = FieldDayOfMonth, Values = {33}, Raw = ''LW''\<rparr>
   \<and> Parse ''0 0 L-1 * *'' = Inr (code33Expr ''L-1'')
   \<and> Parse ''0 0 LW * *'' = Inr (code33Expr ''LW'')
   \<and> (33 \<in> Values (DayOfMonth e) \<longrightarrow>
        HasLastWeekday (detectSpecialFlags e) \<and> HasSpecialDayHandling (detectSpecialFlags e))
   \<and> (33 \<in> Values (DayOfMonth (expr s)) \<and> HasLastWeekday (expr s)
        \<and> lastWeekdayOfMonth s (Time_Year t) (Time_Month t) = Some lw
        \<and> (Time_Day t = lw
            \<or> (0 < Time_Day t
                \<and> Time_Day t = lastDayOfMonth s (Time_Year t) (Time_Month t) - 1))
        \<longrightarrow> matchesSpecialDay s t = Some True)
   \<and> (lastWeekdayOfMonth \<lparr>expr = code33Expr token, location = loc\<rparr>
          (Time_Year u) (Time_Month u) = Some lw'
        \<longrightarrow> matchesSpecialDay \<lparr>expr = code33Expr token, location = loc\<rparr> u
            = Some (Time_Day u = lw'
                    \<or> (0 < Time_Day u
                        \<and> Time_Day u = lastDayOfMonth \<lparr>expr = code33Expr token, location = loc\<rparr>
                                          (Time_Year u) (Time_Month u) - 1)
                    \<or> Time_Day u = 33))"
proof -
  have p1: "FieldParser_Parse FieldDayOfMonth ''L-1''
     = Inr \<lparr>Type = FieldDayOfMonth, Values = {33}, Raw = ''L-1''\<rparr>"
    by code_simp
  have p2: "FieldParser_Parse FieldDayOfMonth ''LW''
     = Inr \<lparr>Type = FieldDayOfMonth, Values = {33}, Raw = ''LW''\<rparr>"
    by code_simp
  have p3: "Parse ''0 0 L-1 * *'' = Inr (code33Expr ''L-1'')"
    by code_simp
  have p4: "Parse ''0 0 LW * *'' = Inr (code33Expr ''LW'')"
    by code_simp
  have flags: "33 \<in> Values (DayOfMonth e) \<longrightarrow>
        HasLastWeekday (detectSpecialFlags e) \<and> HasSpecialDayHandling (detectSpecialFlags e)"
    by (simp add: detectSpecialFlags_def HasSpecialDayHandling_def)
  have both: "matchesSpecialDay s t = Some True"
    if a: "33 \<in> Values (DayOfMonth (expr s))" "HasLastWeekday (expr s)"
      "lastWeekdayOfMonth s (Time_Year t) (Time_Month t) = Some lw"
      and b: "Time_Day t = lw
        \<or> (0 < Time_Day t \<and> Time_Day t = lastDayOfMonth s (Time_Year t) (Time_Month t) - 1)"
  proof -
    let ?ld = "lastDayOfMonth s (Time_Year t) (Time_Month t)"
    show ?thesis
    proof (cases "\<exists>v \<in> Values (DayOfMonth (expr s)).
                     32 < v \<and> v < 100 \<and> 0 < ?ld - (v - 32) \<and> Time_Day t = ?ld - (v - 32)")
      case True
      then show ?thesis unfolding matchesSpecialDay_def by (simp add: Let_def)
    next
      case False
      with a(1) have "\<not> (0 < Time_Day t \<and> Time_Day t = ?ld - 1)"
        by (auto dest!: bspec [where x = 33])
      with b have "Time_Day t = lw" by blast
      with a show ?thesis unfolding matchesSpecialDay_def by (simp add: Let_def)
    qed
  qed
  have exact: "lastWeekdayOfMonth \<lparr>expr = code33Expr token, location = loc\<rparr>
          (Time_Year u) (Time_Month u) = Some lw'
        \<longrightarrow> matchesSpecialDay \<lparr>expr = code33Expr token, location = loc\<rparr> u
            = Some (Time_Day u = lw'
                    \<or> (0 < Time_Day u
                        \<and> Time_Day u = lastDayOfMonth \<lparr>expr = code33Expr token, location = loc\<rparr>
                                          (Time_Year u) (Time_Month u) - 1)
                    \<or> Time_Day u = 33)"
    unfolding matchesSpecialDay_def
    by (auto simp: Let_def code33Expr_def IsAll_def Contains_def)
  from p1 p2 p3 p4 flags both exact show ?thesis by blast
qed

theorem Lminus1_and_LW_share_code_witness:
  "lastWeekdayOfMonth \<lparr>expr = code33Expr ''L-1'', location = UTC\<rparr> 2024 3 = Some 29
   \<and> lastDayOfMonth \<lparr>expr = code33Expr ''L-1'', location = UTC\<rparr> 2024 3 = 31
   \<and> HasLastWeekday (detectSpecialFlags (code33Expr ''L-1''))
   \<and> matchesSpecialDay \<lparr>expr = code33Expr ''L-1'', location = UTC\<rparr>
        (Date 2024 3 29 0 0 0 0 UTC) = Some True
   \<and> matchesSpecialDay \<lparr>expr = code33Expr ''L-1'', location = UTC\<rparr>
        (Date 2024 3 30 0 0 0 0 UTC) = Some True
   \<and> matchesSpecialDay \<lparr>expr = code33Expr ''L-1'', location = UTC\<rparr>
        (Date 2024 3 28 0 0 0 0 UTC) = Some False"
proof -
  let ?s = "\<lparr>expr = code33Expr ''L-1'', location = UTC\<rparr>"
  have d: "Time_Year (Date 2024 3 29 0 0 0 0 UTC) = 2024" "Time_Month (Date 2024 3 29 0 0 0 0 UTC) = 3"
    "Time_Day (Date 2024 3 29 0 0 0 0 UTC) = 29"
    "Time_Year (Date 2024 3 30 0 0 0 0 UTC) = 2024" "Time_Month (Date 2024 3 30 0 0 0 0 UTC) = 3"
    "Time_Day (Date 2024 3 30 0 0 0 0 UTC) = 30"
    "Time_Year (Date 2024 3 28 0 0 0 0 UTC) = 2024" "Time_Month (Date 2024 3 28 0 0 0 0 UTC) = 3"
    "Time_Day (Date 2024 3 28 0 0 0 0 UTC) = 28"
    by code_simp+
  have lw: "lastWeekdayOfMonth ?s 2024 3 = Some 29" by code_simp
  have ld: "lastDayOfMonth ?s 2024 3 = 31" by code_simp
  have m: "33 \<in> Values (DayOfMonth (code33Expr ''L-1''))" "HasLastWeekday (code33Expr ''L-1'')"
    by (simp_all add: code33Expr_def)
  note th = Lminus1_and_LW_share_code
  have f: "HasLastWeekday (detectSpecialFlags (code33Expr ''L-1''))"
    using th [of "code33Expr ''L-1''"] m by blast
  have a: "matchesSpecialDay ?s (Date 2024 3 29 0 0 0 0 UTC) = Some True"
    using th [of _ ?s "Date 2024 3 29 0 0 0 0 UTC" 29] m lw by (simp add: d)
  have b: "matchesSpecialDay ?s (Date 2024 3 30 0 0 0 0 UTC) = Some True"
    using th [of _ ?s "Date 2024 3 30 0 0 0 0 UTC" 29] m lw ld by (simp add: d)
  have c: "matchesSpecialDay ?s (Date 2024 3 28 0 0 0 0 UTC) = Some False"
    using th [of _ _ _ _ "''L-1''" UTC "Date 2024 3 28 0 0 0 0 UTC" 29] lw ld by (simp add: d)
  from lw ld f a b c show ?thesis by blast
qed

section \<open>Properties of parse errors\<close>













section \<open>The search across a change of the clock\<close>

lemma Parse_everyFiveMinutes: "Parse ''*/5 * * * *'' = Inr everyFiveMinutes"
  by code_simp

lemma Parse_dailyAt0359: "Parse ''59 3 * * *'' = Inr dailyAt0359"
  by code_simp

lemma Parse_dailyAt2: "Parse ''0 2 * * *'' = Inr dailyAt2"
  by code_simp

text \<open>
  Claim C3 says that a successful \<open>Next\<close> returns an instant strictly after its argument,
  and a successful \<open>Previous\<close> one strictly before. The code does otherwise where the
  clock of the scheduler's location is set forward. The jumps of the search build the
  next cursor with \<open>time.Date\<close> from wall-clock fields; for a reading that the clock
  skips, \<open>time.Date\<close> returns an instant on the other side of the change. In New York,
  \<open>Next\<close> for \<open>*/5 * * * *\<close> from 2024-03-10 01:58:59 EST (06:58:59 UTC) returns
  01:00:00 EST (06:00:00 UTC), which is 58 minutes 59 seconds earlier. In Berlin,
  \<open>Previous\<close> for \<open>59 3 * * *\<close> from 2024-03-31 03:00:30 CEST (01:00:30 UTC) returns
  03:59:00 CEST (01:59:00 UTC), which is 58 minutes 30 seconds later.
\<close>

theorem search_result_on_the_wrong_side:
  "Parse ''*/5 * * * *'' = Inr everyFiveMinutes
   \<and> Next \<lparr>expr = everyFiveMinutes, location = newYork\<rparr>
        \<lparr>unixSec = 1710053939, nanos = 0, tloc = UTC\<rparr>
      = Some (Inr \<lparr>unixSec = 1710050400, nanos = 0, tloc = newYork\<rparr>)
   \<and> Before \<lparr>unixSec = 1710050400, nanos = 0, tloc = newYork\<rparr>
        \<lparr>unixSec = 1710053939, nanos = 0, tloc = UTC\<rparr>
   \<and> Parse ''59 3 * * *'' = Inr dailyAt0359
   \<and> Previous \<lparr>expr = dailyAt0359, location = berlin\<rparr>
        \<lparr>unixSec = 1711846830, nanos = 0, tloc = UTC\<rparr>
      = Some (Inr \<lparr>unixSec = 1711850340, nanos = 0, tloc = berlin\<rparr>)
   \<and> After \<lparr>unixSec = 1711850340, nanos = 0, tloc = berlin\<rparr>
        \<lparr>unixSec = 1711846830, nanos = 0, tloc = UTC\<rparr>"
proof -
  have "Next \<lparr>expr = everyFiveMinutes, location = newYork\<rparr>
          \<lparr>unixSec = 1710053939, nanos = 0, tloc = UTC\<rparr>
        = Some (Inr \<lparr>unixSec = 1710050400, nanos = 0, tloc = newYork\<rparr>)"
    by code_simp
  moreover have "Previous \<lparr>expr = dailyAt0359, location = berlin\<rparr>
          \<lparr>unixSec = 1711846830, nanos = 0, tloc = UTC\<rparr>
        = Some (Inr \<lparr>unixSec = 1711850340, nanos = 0, tloc = berlin\<rparr>)"
    by code_simp
  moreover have "Before \<lparr>unixSec = 1710050400, nanos = 0, tloc = newYork\<rparr>
                   \<lparr>unixSec = 1710053939, nanos = 0, tloc = UTC\<rparr>"
    "After \<lparr>unixSec = 1711850340, nanos = 0, tloc = berlin\<rparr>
           \<lparr>unixSec = 1711846830, nanos = 0, tloc = UTC\<rparr>"
    by (simp_all add: Before_def After_def)
  ultimately show ?thesis using Parse_everyFiveMinutes Parse_dailyAt0359 by blast
qed

text \<open>
  A cursor on which the hour does not match and from which the jump to the next (or
  previous) hour leads back to the cursor itself keeps the inner loop of the search
  running for ever.
\<close>

lemma findNextLoop_stuck:
  assumes "Before t m" "Contains (Month (expr s)) (Time_Month t)"
    and "matchesDay s t = Some True" "\<not> Contains (Hour (expr s)) (Time_Hour t)"
    and "nextHour s t = t"
  shows "findNextLoop s m t = None"
proof (rule ccontr)
  assume "findNextLoop s m t \<noteq> None"
  then obtain y where y: "findNextLoop s m t = Some y" by auto
  have "(s, m, t) \<noteq> (s, m, t)"
  proof (rule findNextLoop.raw_induct
      [where P = "\<lambda>s' m' t' y'. (s', m', t') \<noteq> (s, m, t)", OF _ y], goal_cases)
    case (1 f s' m' t' y')
    show ?case
    proof
      assume eq: "(s', m', t') = (s, m, t)"
      with 1(2) assms have "f s m t = Some y'" by simp
      from 1(1) [OF this] show False by simp
    qed
  qed
  then show False by simp
qed

lemma findPrevMatch_stuck:
  assumes "After t m" "Contains (Month (expr s)) (Time_Month t)"
    and "matchesDay s t = Some True" "\<not> Contains (Hour (expr s)) (Time_Hour t)"
    and "prevHour s t = t"
  shows "findPrevMatch s t m = None"
proof (rule ccontr)
  assume "findPrevMatch s t m \<noteq> None"
  then obtain y where y: "findPrevMatch s t m = Some y" by auto
  have "(s, t, m) \<noteq> (s, t, m)"
  proof (rule findPrevMatch.raw_induct
      [where P = "\<lambda>s' t' m' y'. (s', t', m') \<noteq> (s, t, m)", OF _ y], goal_cases)
    case (1 f s' t' m' y')
    show ?case
    proof
      assume eq: "(s', t', m') = (s, t, m)"
      with 1(2) assms have "f s t m = Some y'" by simp
      from 1(1) [OF this] show False by simp
    qed
  qed
  then show False by simp
qed

text \<open>
  Claim C8 says that \<open>Next\<close> and \<open>Previous\<close> always return, with the not-found error when
  nothing matches within the bounds, and that every jump of the inner search moves the
  cursor strictly forward (backward). The code does otherwise. The loops of
  \<open>findNextMatch\<close> and \<open>findPrevMatch\<close> test the horizon only; the iteration cap is
  tested in the outer loop, once per match found. For \<open>0 2 * * *\<close> in New York the
  cursor 2024-03-10 01:00:00 EST does not match, and \<open>nextHour\<close> leads from it to
  \<open>time.Date\<close> of 02:00:00, a reading the clock skips, which is 01:00:00 EST again: the
  jump does not advance, and \<open>Next\<close> from 2024-03-10 00:59:59 EST does not return. In
  Berlin \<open>prevHour\<close> leads from 2024-03-31 03:59:59 CEST to itself, and \<open>Previous\<close> from
  04:00:00 CEST does not return.
\<close>

theorem search_does_not_return:
  "Parse ''0 2 * * *'' = Inr dailyAt2
   \<and> nextHour \<lparr>expr = dailyAt2, location = newYork\<rparr>
        \<lparr>unixSec = 1710050400, nanos = 0, tloc = newYork\<rparr>
      = \<lparr>unixSec = 1710050400, nanos = 0, tloc = newYork\<rparr>
   \<and> Next \<lparr>expr = dailyAt2, location = newYork\<rparr>
        \<lparr>unixSec = 1710050399, nanos = 0, tloc = UTC\<rparr> = None
   \<and> prevHour \<lparr>expr = dailyAt2, location = berlin\<rparr>
        \<lparr>unixSec = 1711850399, nanos = 0, tloc = berlin\<rparr>
      = \<lparr>unixSec = 1711850399, nanos = 0, tloc = berlin\<rparr>
   \<and> Previous \<lparr>expr = dailyAt2, location = berlin\<rparr>
        \<lparr>unixSec = 1711850400, nanos = 0, tloc = UTC\<rparr> = None"
proof -
  have n:
    "Next \<lparr>expr = dailyAt2, location = newYork\<rparr> \<lparr>unixSec = 1710050399, nanos = 0, tloc = UTC\<rparr> = None"
  proof -
    let ?s = "\<lparr>expr = dailyAt2, location = newYork\<rparr>"
    let ?t = "\<lparr>unixSec = 1710050400, nanos = 0, tloc = newYork\<rparr>"
    let ?m = "AddDate ?t DefaultSearchYears 0 0"
    have start: "TruncateSecond (Add (In \<lparr>unixSec = 1710050399, nanos = 0, tloc = UTC\<rparr> (location ?s)) 1) = ?t"
      by code_simp
    have f: "Before ?t ?m" "Contains (Month (expr ?s)) (Time_Month ?t)"
      "matchesDay ?s ?t = Some True" "\<not> Contains (Hour (expr ?s)) (Time_Hour ?t)"
      "nextHour ?s ?t = ?t" "\<not> After ?t ?m" "0 < DefaultMaxIterations * 60"
      by code_simp+
    have loop: "findNextLoop ?s ?m ?t = None" by (rule findNextLoop_stuck [OF f(1-5)])
    have "findNextMatch ?s ?t ?m = None"
      unfolding findNextMatch_def alignToNextMonth_def using f loop by (simp add: Let_def)
    then have "nextNLoop ?s ?m ?t 1 0 = None"
      by (subst nextNLoop.simps) (use f in simp)
    then show ?thesis unfolding Next_def NextN_def start by (simp add: Let_def)
  qed
  have p:
    "Previous \<lparr>expr = dailyAt2, location = berlin\<rparr> \<lparr>unixSec = 1711850400, nanos = 0, tloc = UTC\<rparr> = None"
  proof -
    let ?s = "\<lparr>expr = dailyAt2, location = berlin\<rparr>"
    let ?t = "\<lparr>unixSec = 1711850399, nanos = 0, tloc = berlin\<rparr>"
    let ?m = "AddDate ?t (- DefaultSearchYears) 0 0"
    have start: "TruncateSecond (Add (In \<lparr>unixSec = 1711850400, nanos = 0, tloc = UTC\<rparr> (location ?s)) (- 1)) = ?t"
      by code_simp
    have f: "After ?t ?m" "Contains (Month (expr ?s)) (Time_Month ?t)"
      "matchesDay ?s ?t = Some True" "\<not> Contains (Hour (expr ?s)) (Time_Hour ?t)"
      "prevHour ?s ?t = ?t" "0 < DefaultMaxIterations * 60"
      by code_simp+
    have loop: "findPrevMatch ?s ?t ?m = None" by (rule findPrevMatch_stuck [OF f(1-5)])
    then have "prevNLoop ?s ?m ?t 1 0 = None"
      by (subst prevNLoop.simps) (use f in simp)
    then show ?thesis unfolding Previous_def PreviousN_def start by (simp add: Let_def)
  qed
  have "nextHour \<lparr>expr = dailyAt2, location = newYork\<rparr>
          \<lparr>unixSec = 1710050400, nanos = 0, tloc = newYork\<rparr>
        = \<lparr>unixSec = 1710050400, nanos = 0, tloc = newYork\<rparr>"
    "prevHour \<lparr>expr = dailyAt2, location = berlin\<rparr>
          \<lparr>unixSec = 1711850399, nanos = 0, tloc = berlin\<rparr>
        = \<lparr>unixSec = 1711850399, nanos = 0, tloc = berlin\<rparr>"
    by code_simp+
  with n p Parse_dailyAt2 show ?thesis by blast
qed

end
